theory Spec2Isabelle
  imports Complex_Main "HOL-Library.AList"
begin

section \<open>JavaScript values of the data service\<close>

text \<open>
  The data service (\<^verbatim>\<open>dataService.js\<close>) reads numbers out of provider JSON. A JSON slot
  that should hold a number is modelled as absent (\<^verbatim>\<open>undefined\<close>), \<^verbatim>\<open>null\<close> or a finite
  number; JSON has no NaN. JavaScript has one number type, modelled by \<open>real\<close>
  (rounding of doubles is not modelled). The clock \<^verbatim>\<open>Date.now()\<close> is a number too.
\<close>

datatype jv = JUndef | JNull | JNum real

text \<open>Truthiness, \<^verbatim>\<open>isNaN\<close> (which converts its argument with \<^verbatim>\<open>Number\<close>: \<^verbatim>\<open>null\<close> becomes 0,
  \<^verbatim>\<open>undefined\<close> becomes NaN) and \<^verbatim>\<open>typeof v === 'number'\<close>.\<close>

fun truthy :: "jv \<Rightarrow> bool" where
  "truthy (JNum r) = (r \<noteq> 0)"
| "truthy JUndef = False"
| "truthy JNull = False"

fun isNaN :: "jv \<Rightarrow> bool" where
  "isNaN JUndef = True"
| "isNaN JNull = False"
| "isNaN (JNum r) = False"

fun is_number :: "jv \<Rightarrow> bool" where
  "is_number (JNum r) = True"
| "is_number JUndef = False"
| "is_number JNull = False"

text \<open>The number held by a slot that passed the filters (\<^verbatim>\<open>Number(null)\<close> is 0).\<close>

fun num_of :: "jv \<Rightarrow> real" where
  "num_of (JNum r) = r"
| "num_of JNull = 0"
| "num_of JUndef = 0"

text \<open>\<^verbatim>\<open>v || d\<close> with a number \<open>d\<close>, \<^verbatim>\<open>v || null\<close>, \<^verbatim>\<open>a || b\<close> on numbers, and \<^verbatim>\<open>x ?? d\<close>
  where \<open>None\<close> stands for a nullish field.\<close>

definition jv_or :: "jv \<Rightarrow> real \<Rightarrow> real" where
  "jv_or v d = (if truthy v then num_of v else d)"

definition jv_or_null :: "jv \<Rightarrow> real option" where
  "jv_or_null v = (if truthy v then Some (num_of v) else None)"

definition num_or :: "real \<Rightarrow> real \<Rightarrow> real" where
  "num_or a b = (if a \<noteq> 0 then a else b)"

definition nullish :: "'a option \<Rightarrow> 'a \<Rightarrow> 'a" where
  "nullish x d = (case x of Some v \<Rightarrow> v | None \<Rightarrow> d)"

text \<open>Array reads \<^verbatim>\<open>xs[0]\<close>, \<^verbatim>\<open>xs[xs.length - 1]\<close> and \<^verbatim>\<open>xs[i]\<close>: out of range they give
  \<^verbatim>\<open>undefined\<close>.\<close>

definition first_elem :: "real list \<Rightarrow> jv" where
  "first_elem xs = (case xs of [] \<Rightarrow> JUndef | x # _ \<Rightarrow> JNum x)"

definition last_elem :: "real list \<Rightarrow> jv" where
  "last_elem xs = (if xs = [] then JUndef else JNum (last xs))"

definition elem_at :: "jv list \<Rightarrow> nat \<Rightarrow> jv" where
  "elem_at xs i = (if i < length xs then xs ! i else JUndef)"

text \<open>\<^verbatim>\<open>Math.max(...xs)\<close> and \<^verbatim>\<open>Math.min(...xs)\<close>, called on non-empty arrays only.\<close>

definition math_max :: "real list \<Rightarrow> real" where
  "math_max xs = fold max (tl xs) (hd xs)"

definition math_min :: "real list \<Rightarrow> real" where
  "math_min xs = fold min (tl xs) (hd xs)"

text \<open>Template literals print the look-back window, an integer, in decimal.\<close>

fun show_nat :: "nat \<Rightarrow> string" where
  "show_nat n = (if n < 10 then [''0123456789'' ! n]
                 else show_nat (n div 10) @ [''0123456789'' ! (n mod 10)])"

declare show_nat.simps [simp del]

definition show_int :: "int \<Rightarrow> string" where
  "show_int i = (if i < 0 then CHR ''-'' # show_nat (nat (- i)) else show_nat (nat i))"

section \<open>Objects held in the cache and returned by the adapters\<close>

text \<open>
  The cache is one \<^verbatim>\<open>Map\<close> from key strings to objects: asset records under the keys
  \<^verbatim>\<open>crypto-...\<close> and \<^verbatim>\<open>stock-...\<close>, detail records under \<^verbatim>\<open>detail-...\<close>. An object is a
  record of optional fields, \<open>None\<close> for a field the object does not have (or holds
  \<^verbatim>\<open>null\<close>); the object spread \<^verbatim>\<open>{...o, f: v}\<close> is a record update. The last six fields
  occur in detail records only.
\<close>

record obj =
  symbol :: "string option"
  currency :: "string option"
  type' :: "string option"
  price :: "real option"
  change :: "real option"
  change24h :: "real option"
  history :: "real list option"
  timestamps :: "real list option"
  open' :: "real option"
  previousClose :: "real option"
  high :: "real option"
  low :: "real option"
  high52w :: "real option"
  low52w :: "real option"
  marketCap :: "real option"
  volume :: "real option"
  avgVolume :: "real option"
  pe :: "real option"
  circulatingSupply :: "real option"
  totalSupply :: "real option"
  rank :: "real option"
  timestamp :: "real option"
  error :: "bool option"
  fromCache :: "bool option"
  currentPrice :: "real option"
  high24h :: "real option"
  low24h :: "real option"
  ath :: "real option"
  atl :: "real option"
  volume24h :: "real option"

definition empty_obj :: obj where
  "empty_obj = \<lparr>symbol = None, currency = None, type' = None, price = None, change = None,
     change24h = None, history = None, timestamps = None, open' = None,
     previousClose = None, high = None, low = None, high52w = None, low52w = None,
     marketCap = None, volume = None, avgVolume = None, pe = None,
     circulatingSupply = None, totalSupply = None, rank = None, timestamp = None,
     error = None, fromCache = None, currentPrice = None, high24h = None, low24h = None,
     ath = None, atl = None, volume24h = None\<rparr>"

text \<open>\<^verbatim>\<open>{...o}\<close> for \<open>o\<close> that may be \<^verbatim>\<open>undefined\<close>: spreading \<^verbatim>\<open>undefined\<close> adds nothing.\<close>

definition spread :: "obj option \<Rightarrow> obj" where
  "spread o' = (case o' of None \<Rightarrow> empty_obj | Some c \<Rightarrow> c)"

section \<open>Provider responses, requests and the world\<close>

text \<open>
  The response bodies of the four endpoints, with the fields the code reads.
  \<open>NoData\<close> is a body without the shape the code dereferences (a \<^verbatim>\<open>TypeError\<close> is
  raised on the first access). An optional array is \<open>None\<close> when the field is missing.
  A chart sample \<^verbatim>\<open>p\<close> is the pair \<^verbatim>\<open>(p?.[0], p?.[1])\<close>.
\<close>

record market_data =
  md_current_price_usd :: jv
  md_price_change_percentage_24h :: jv
  md_high_24h_usd :: jv
  md_low_24h_usd :: jv
  md_ath_usd :: jv
  md_atl_usd :: jv
  md_market_cap_usd :: jv
  md_total_volume_usd :: jv
  md_circulating_supply :: jv
  md_total_supply :: jv

record chart_meta =
  meta_regularMarketPrice :: jv
  meta_chartPreviousClose :: jv
  meta_currency :: "string option"
  meta_instrumentType :: "string option"
  meta_regularMarketDayHigh :: jv
  meta_regularMarketDayLow :: jv
  meta_fiftyTwoWeekHigh :: jv
  meta_fiftyTwoWeekLow :: jv
  meta_regularMarketVolume :: jv

record chart_result =
  result_meta :: chart_meta
  quote_close :: "jv list option"
  quote_open :: "jv list option"
  result_timestamp :: "jv list option"

record quote_data =
  q_marketCap :: jv
  q_trailingPE :: jv
  q_forwardPE :: jv
  q_averageDailyVolume3Month :: jv
  q_averageDailyVolume10Day :: jv
  q_fiftyTwoWeekHigh :: jv
  q_fiftyTwoWeekLow :: jv
  q_regularMarketOpen :: jv

datatype body =
    NoData
  | CoinChart "(jv \<times> jv) list option"
  | CoinDetail market_data jv
  | YahooChart chart_result
  | YahooQuote "quote_data option"

text \<open>An error caught by the code: an axios error with \<^verbatim>\<open>e.response?.status\<close>
  (\<open>None\<close> when no response was received), or a \<^verbatim>\<open>TypeError\<close>.\<close>

datatype error = AxiosError "nat option" | TypeError

fun response_status :: "error \<Rightarrow> nat option" where
  "response_status (AxiosError s) = s"
| "response_status TypeError = None"

record request =
  url :: string
  params :: "(string \<times> string) list"
  headers :: "(string \<times> string) list"
  timeout :: nat

text \<open>
  The world the service runs in: the clock, the module variable \<^verbatim>\<open>lastCoinGeckoCall\<close>,
  the cache \<^verbatim>\<open>Map\<close> (an association list in insertion order), the cache file, the
  network (the reply to the n-th request: the time it takes and its outcome), the log
  of the requests made, and \<^verbatim>\<open>Math.random\<close> (the n-th draw). Calls run one after the
  other; timers fire when they are due (at once for a delay that is not positive);
  \<^verbatim>\<open>console\<close> output and a failing write of the cache file are not modelled. The
  look-back window \<^verbatim>\<open>days\<close> is an integer.
\<close>

record world =
  clock :: real
  lastCoinGeckoCall :: real
  cache :: "(string \<times> obj) list"
  disk :: "(string \<times> obj) list"
  net :: "nat \<Rightarrow> request \<Rightarrow> real \<times> (error + body)"
  requests :: "request list"
  random :: "nat \<Rightarrow> real"
  randoms_used :: nat

definition COINGECKO_DELAY :: real where
  "COINGECKO_DELAY = 5000"

definition CACHE_TTL :: real where
  "CACHE_TTL = 60 * 1000"

definition DETAIL_TTL :: real where
  "DETAIL_TTL = 30 * 60 * 1000"

text \<open>\<^verbatim>\<open>await new Promise(r => setTimeout(r, d))\<close>, \<^verbatim>\<open>Math.random()\<close> and
  \<^verbatim>\<open>await axios.get(url, options)\<close>.\<close>

definition sleep :: "real \<Rightarrow> world \<Rightarrow> world" where
  "sleep d st = st\<lparr>clock := clock st + max 0 d\<rparr>"

definition math_random :: "world \<Rightarrow> real \<times> world" where
  "math_random st = (random st (randoms_used st), st\<lparr>randoms_used := Suc (randoms_used st)\<rparr>)"

definition axios_get :: "request \<Rightarrow> world \<Rightarrow> (error + body) \<times> world" where
  "axios_get req st =
     (case net st (length (requests st)) req of
        (took, res) \<Rightarrow>
          (res, st\<lparr>clock := clock st + max 0 took, requests := requests st @ [req]\<rparr>))"

section \<open>Rate limiter and retrying fetcher\<close>

definition waitForCoinGecko :: "world \<Rightarrow> world" where
  "waitForCoinGecko st =
     (let now = clock st;
          elapsed = now - lastCoinGeckoCall st;
          st1 = (if elapsed < COINGECKO_DELAY then sleep (COINGECKO_DELAY - elapsed) st else st)
      in st1\<lparr>lastCoinGeckoCall := clock st1\<rparr>)"

text \<open>\<^verbatim>\<open>status === 429 || (status >= 500) || !status\<close>\<close>

definition shouldRetry :: "nat option \<Rightarrow> bool" where
  "shouldRetry status =
     (status = Some 429 \<or> (case status of Some s \<Rightarrow> s \<ge> 500 | None \<Rightarrow> False)
      \<or> (status = None \<or> status = Some 0))"

text \<open>
  The loop of \<^verbatim>\<open>axiosGetWithRetry\<close> from a given value of \<^verbatim>\<open>attempt\<close>. Falling out of
  the loop returns \<^verbatim>\<open>undefined\<close> (\<open>Inr None\<close>).
\<close>

function axiosGetWithRetry_loop ::
  "request \<Rightarrow> nat \<Rightarrow> real \<Rightarrow> nat \<Rightarrow> world \<Rightarrow> (error + body option) \<times> world" where
  "axiosGetWithRetry_loop req retries baseDelay attempt st =
     (if attempt \<le> retries then
        (case axios_get req (waitForCoinGecko st) of
           (Inr resp, st2) \<Rightarrow> (Inr (Some resp), st2)
         | (Inl e, st2) \<Rightarrow>
             (if attempt < retries \<and> shouldRetry (response_status e) then
                (case math_random st2 of
                   (u, st3) \<Rightarrow>
                     (let jitter = real_of_int \<lfloor>u * 300\<rfloor>;
                          delay = baseDelay * 2 ^ attempt + jitter
                      in axiosGetWithRetry_loop req retries baseDelay (attempt + 1)
                           (sleep delay st3)))
              else (Inl e, st2)))
      else (Inr None, st))"
  by pat_completeness auto
termination
  by (relation "measure (\<lambda>(req, retries, baseDelay, attempt, st). Suc retries - attempt)") auto

declare axiosGetWithRetry_loop.simps [simp del]

definition axiosGetWithRetry :: "request \<Rightarrow> world \<Rightarrow> (error + body option) \<times> world" where
  "axiosGetWithRetry req st = axiosGetWithRetry_loop req 3 1000 0 st"

section \<open>The cache\<close>

definition cache_get :: "world \<Rightarrow> string \<Rightarrow> obj option" where
  "cache_get st key = map_of (cache st) key"

definition cache_has :: "world \<Rightarrow> string \<Rightarrow> bool" where
  "cache_has st key = (map_of (cache st) key \<noteq> None)"

definition cache_set :: "string \<Rightarrow> obj \<Rightarrow> world \<Rightarrow> world" where
  "cache_set key v st = st\<lparr>cache := AList.update key v (cache st)\<rparr>"

definition saveFileCache :: "world \<Rightarrow> world" where
  "saveFileCache st = st\<lparr>disk := cache st\<rparr>"

text \<open>\<^verbatim>\<open>!cached || !cached.timestamp\<close>: a timestamp that is missing, \<^verbatim>\<open>null\<close> or 0 is
  falsy.\<close>

definition isCacheValid :: "world \<Rightarrow> string \<Rightarrow> real \<Rightarrow> bool" where
  "isCacheValid st cacheKey ttl =
     (case cache_get st cacheKey of
        None \<Rightarrow> False
      | Some cached \<Rightarrow>
          (case timestamp cached of
             None \<Rightarrow> False
           | Some t \<Rightarrow> if t = 0 then False else clock st - t < ttl))"

section \<open>Crypto adapter\<close>

definition std_headers :: "(string \<times> string) list" where
  "std_headers = [(''User-Agent'', ''Mozilla/5.0'')]"

definition crypto_chart_request :: "string \<Rightarrow> int \<Rightarrow> request" where
  "crypto_chart_request coinId days =
     \<lparr>url = ''https://api.coingecko.com/api/v3/coins/'' @ coinId @ ''/market_chart'',
      params = [(''vs_currency'', ''usd''), (''days'', show_int days)],
      headers = std_headers, timeout = 10000\<rparr>"

definition crypto_detail_request :: "string \<Rightarrow> request" where
  "crypto_detail_request coinId =
     \<lparr>url = ''https://api.coingecko.com/api/v3/coins/'' @ coinId,
      params = [(''localization'', ''false''), (''tickers'', ''false''),
                (''community_data'', ''false''), (''developer_data'', ''false'')],
      headers = std_headers, timeout = 10000\<rparr>"

text \<open>\<^verbatim>\<open>chartResponse.data.prices || []\<close>: a \<^verbatim>\<open>TypeError\<close> without a response or without
  data, the empty list when the body has no \<^verbatim>\<open>prices\<close>.\<close>

fun chart_prices :: "body option \<Rightarrow> error + (jv \<times> jv) list" where
  "chart_prices None = Inl TypeError"
| "chart_prices (Some NoData) = Inl TypeError"
| "chart_prices (Some (CoinChart None)) = Inr []"
| "chart_prices (Some (CoinChart (Some pairs))) = Inr pairs"
| "chart_prices (Some (CoinDetail md r)) = Inr []"
| "chart_prices (Some (YahooChart c)) = Inr []"
| "chart_prices (Some (YahooQuote q)) = Inr []"

text \<open>The loop over \<^verbatim>\<open>pairs\<close> that builds \<^verbatim>\<open>timestamps\<close> and \<^verbatim>\<open>prices\<close>.\<close>

fun chart_points :: "real \<Rightarrow> (jv \<times> jv) list \<Rightarrow> real list \<times> real list" where
  "chart_points now [] = ([], [])"
| "chart_points now ((ts, val) # pairs) =
     (case chart_points now pairs of
        (timestamps', prices) \<Rightarrow>
          if val \<noteq> JNull \<and> val \<noteq> JUndef \<and> \<not> isNaN val
          then ((if is_number ts then num_of ts else now) # timestamps', num_of val # prices)
          else (timestamps', prices))"

definition undefined_md :: market_data where
  "undefined_md = \<lparr>md_current_price_usd = JUndef, md_price_change_percentage_24h = JUndef,
     md_high_24h_usd = JUndef, md_low_24h_usd = JUndef, md_ath_usd = JUndef,
     md_atl_usd = JUndef, md_market_cap_usd = JUndef, md_total_volume_usd = JUndef,
     md_circulating_supply = JUndef, md_total_supply = JUndef\<rparr>"

text \<open>\<^verbatim>\<open>detailResponse.data.market_data || {}\<close> and \<^verbatim>\<open>detailResponse.data.market_cap_rank\<close>;
  \<open>None\<close> when the access raises.\<close>

fun detail_fields :: "body option \<Rightarrow> (market_data \<times> jv) option" where
  "detail_fields None = None"
| "detail_fields (Some NoData) = None"
| "detail_fields (Some (CoinDetail md r)) = Some (md, r)"
| "detail_fields (Some (CoinChart ps)) = Some (undefined_md, JUndef)"
| "detail_fields (Some (YahooChart c)) = Some (undefined_md, JUndef)"
| "detail_fields (Some (YahooQuote q)) = Some (undefined_md, JUndef)"

definition detail_record :: "market_data \<Rightarrow> jv \<Rightarrow> real \<Rightarrow> obj" where
  "detail_record md r now = empty_obj
     \<lparr>currentPrice := jv_or_null (md_current_price_usd md),
      change24h := Some (jv_or (md_price_change_percentage_24h md) 0),
      high24h := jv_or_null (md_high_24h_usd md),
      low24h := jv_or_null (md_low_24h_usd md),
      ath := jv_or_null (md_ath_usd md),
      atl := jv_or_null (md_atl_usd md),
      marketCap := Some (jv_or (md_market_cap_usd md) 0),
      volume24h := Some (jv_or (md_total_volume_usd md) 0),
      circulatingSupply := Some (jv_or (md_circulating_supply md) 0),
      totalSupply := Some (jv_or (md_total_supply md) 0),
      rank := Some (jv_or r 0),
      timestamp := Some now\<rparr>"

text \<open>The detail record: the cached one while it is valid, else a fetched one, else
  \<^verbatim>\<open>null\<close> (\<open>None\<close>) when the detail request fails.\<close>

definition crypto_detail :: "string \<Rightarrow> string \<Rightarrow> world \<Rightarrow> obj option \<times> world" where
  "crypto_detail coinId detailKey st =
     (case (if isCacheValid st detailKey DETAIL_TTL then cache_get st detailKey else None) of
        Some detailData \<Rightarrow> (Some detailData, st)
      | None \<Rightarrow>
          (case axiosGetWithRetry (crypto_detail_request coinId) st of
             (Inl e, st1) \<Rightarrow> (None, st1)
           | (Inr detailResponse, st1) \<Rightarrow>
               (case detail_fields detailResponse of
                  None \<Rightarrow> (None, st1)
                | Some (md, r) \<Rightarrow>
                    (let detailData = detail_record md r (clock st1)
                     in (Some detailData, saveFileCache (cache_set detailKey detailData st1))))))"

text \<open>\<^verbatim>\<open>detailData?.f\<close>\<close>

definition opt_field :: "obj option \<Rightarrow> (obj \<Rightarrow> 'a option) \<Rightarrow> 'a option" where
  "opt_field detailData f = (case detailData of None \<Rightarrow> None | Some d \<Rightarrow> f d)"

definition crypto_currentPrice :: "real list \<Rightarrow> obj option \<Rightarrow> real" where
  "crypto_currentPrice prices detailData =
     (case opt_field detailData currentPrice of
        Some p \<Rightarrow> num_or p 0
      | None \<Rightarrow> jv_or (last_elem prices) 0)"

definition crypto_asset :: "string \<Rightarrow> real list \<Rightarrow> real list \<Rightarrow> obj option \<Rightarrow> real \<Rightarrow> obj" where
  "crypto_asset symb timestamps' prices detailData now =
     (let validPrices = filter (\<lambda>p. p > 0) prices;
          currentPrice' = crypto_currentPrice prices detailData;
          firstPrice = jv_or (first_elem prices) currentPrice';
          change' = (if firstPrice > 0 then ((currentPrice' - firstPrice) / firstPrice) * 100 else 0)
      in empty_obj
        \<lparr>symbol := Some symb,
         type' := Some ''crypto'',
         price := Some currentPrice',
         change := Some change',
         change24h := Some (nullish (opt_field detailData change24h) 0),
         history := Some prices,
         timestamps := Some timestamps',
         open' := Some (jv_or (first_elem prices) 0),
         high := Some (num_or (nullish (opt_field detailData high24h)
                   (if length validPrices > 0 then math_max validPrices else 0)) 0),
         low := Some (num_or (nullish (opt_field detailData low24h)
                   (if length validPrices > 0 then math_min validPrices else 0)) 0),
         high52w := Some (nullish (opt_field detailData ath) 0),
         low52w := Some (nullish (opt_field detailData atl) 0),
         marketCap := Some (nullish (opt_field detailData marketCap) 0),
         volume := Some (nullish (opt_field detailData volume24h) 0),
         circulatingSupply := Some (nullish (opt_field detailData circulatingSupply) 0),
         totalSupply := Some (nullish (opt_field detailData totalSupply) 0),
         rank := Some (nullish (opt_field detailData rank) 0),
         timestamp := Some now,
         error := Some False\<rparr>)"

text \<open>The \<^verbatim>\<open>try\<close> block of \<^verbatim>\<open>fetchCryptoData\<close>: \<open>Inl\<close> is an error that reaches the
  \<^verbatim>\<open>catch\<close>.\<close>

definition fetchCryptoData_try ::
  "string \<Rightarrow> string \<Rightarrow> int \<Rightarrow> string \<Rightarrow> string \<Rightarrow> world \<Rightarrow> (error + obj) \<times> world" where
  "fetchCryptoData_try symb coinId days chartKey detailKey st =
     (case axiosGetWithRetry (crypto_chart_request coinId days) st of
        (Inl e, st1) \<Rightarrow> (Inl e, st1)
      | (Inr chartResponse, st1) \<Rightarrow>
          (case chart_prices chartResponse of
             Inl e \<Rightarrow> (Inl e, st1)
           | Inr pairs \<Rightarrow>
               (case chart_points (clock st1) pairs of
                  (timestamps', prices0) \<Rightarrow>
                    (let prices = (if length prices0 = 0 then prices0 @ [0] else prices0)
                     in case crypto_detail coinId detailKey st1 of
                          (detailData, st2) \<Rightarrow>
                            (let result = crypto_asset symb timestamps' prices detailData (clock st2)
                             in (Inr result, saveFileCache (cache_set chartKey result st2)))))))"

definition crypto_placeholder :: "string \<Rightarrow> obj" where
  "crypto_placeholder symb = empty_obj
     \<lparr>symbol := Some symb, type' := Some ''crypto'', price := Some 0, change := Some 0,
      change24h := Some 0, history := Some [0], open' := Some 0, high := Some 0,
      low := Some 0, high52w := Some 0, low52w := Some 0, marketCap := Some 0,
      volume := Some 0, circulatingSupply := Some 0, totalSupply := Some 0,
      rank := Some 0, error := Some True\<rparr>"

definition crypto_chartKey :: "string \<Rightarrow> int \<Rightarrow> string" where
  "crypto_chartKey symb days = ''crypto-'' @ symb @ ''-'' @ show_int days"

definition crypto_detailKey :: "string \<Rightarrow> string" where
  "crypto_detailKey coinId = ''detail-'' @ coinId"

definition fetchCryptoData :: "string \<Rightarrow> string \<Rightarrow> int \<Rightarrow> world \<Rightarrow> obj \<times> world" where
  "fetchCryptoData symb coinId days st =
     (let chartKey = crypto_chartKey symb days;
          detailKey = crypto_detailKey coinId
      in if isCacheValid st chartKey CACHE_TTL
         then ((spread (cache_get st chartKey))\<lparr>fromCache := Some True\<rparr>, st)
         else (case fetchCryptoData_try symb coinId days chartKey detailKey st of
                 (Inr result, st1) \<Rightarrow> (result, st1)
               | (Inl e, st1) \<Rightarrow>
                   if cache_has st1 chartKey
                   then ((spread (cache_get st1 chartKey))\<lparr>error := Some True, fromCache := Some True\<rparr>, st1)
                   else (crypto_placeholder symb, st1)))"

section \<open>Equity adapter\<close>

text \<open>The \<^verbatim>\<open>if\<close> chain that chooses \<^verbatim>\<open>range\<close> and \<^verbatim>\<open>interval\<close>.\<close>

definition range_interval :: "int \<Rightarrow> string \<times> string" where
  "range_interval days =
     (if days \<le> 1 then (''1d'', ''1h'')
      else if days \<le> 7 then (''7d'', ''1d'')
      else if days \<le> 30 then (''1mo'', ''1d'')
      else (''3mo'', ''1d''))"

definition stock_chart_request :: "string \<Rightarrow> string \<Rightarrow> string \<Rightarrow> request" where
  "stock_chart_request symb interval' range' =
     \<lparr>url = ''https://query1.finance.yahoo.com/v8/finance/chart/'' @ symb,
      params = [(''interval'', interval'), (''range'', range')],
      headers = std_headers, timeout = 10000\<rparr>"

definition stock_quote_request :: "string \<Rightarrow> request" where
  "stock_quote_request symb =
     \<lparr>url = ''https://query1.finance.yahoo.com/v7/finance/quote'',
      params = [(''symbols'', symb)],
      headers = std_headers, timeout = 5000\<rparr>"

text \<open>\<^verbatim>\<open>response.data.chart.result[0]\<close> with its \<^verbatim>\<open>indicators.quote[0]\<close> and \<^verbatim>\<open>meta\<close>:
  \<open>None\<close> when one of the accesses raises.\<close>

fun chart_result_of :: "body \<Rightarrow> chart_result option" where
  "chart_result_of (YahooChart c) = Some c"
| "chart_result_of NoData = None"
| "chart_result_of (CoinChart ps) = None"
| "chart_result_of (CoinDetail md r) = None"
| "chart_result_of (YahooQuote q) = None"

text \<open>The loop over \<^verbatim>\<open>rawCloses\<close> from index \<open>i\<close> that builds \<^verbatim>\<open>closePrices\<close> and
  \<^verbatim>\<open>timestamps\<close>.\<close>

fun close_points :: "real \<Rightarrow> jv list \<Rightarrow> nat \<Rightarrow> jv list \<Rightarrow> real list \<times> real list" where
  "close_points now rawTimestamps i [] = ([], [])"
| "close_points now rawTimestamps i (val # rawCloses) =
     (case close_points now rawTimestamps (Suc i) rawCloses of
        (closePrices, timestamps') \<Rightarrow>
          if val \<noteq> JNull \<and> val \<noteq> JUndef \<and> \<not> isNaN val
          then (num_of val # closePrices,
                (let ts = elem_at rawTimestamps i
                 in if is_number ts then num_of ts * 1000 else now) # timestamps')
          else (closePrices, timestamps'))"

definition or_empty :: "'a list option \<Rightarrow> 'a list" where
  "or_empty xs = (case xs of None \<Rightarrow> [] | Some l \<Rightarrow> l)"

definition stock_asset :: "string \<Rightarrow> chart_result \<Rightarrow> real \<Rightarrow> obj" where
  "stock_asset symb result now =
     (let meta = result_meta result;
          rawCloses = or_empty (quote_close result);
          rawTimestamps = or_empty (result_timestamp result)
      in case close_points now rawTimestamps 0 rawCloses of
           (closePrices0, timestamps') \<Rightarrow>
             (let closePrices = (if length closePrices0 = 0 then closePrices0 @ [0] else closePrices0);
                  currentPrice' = jv_or (meta_regularMarketPrice meta)
                                    (jv_or (last_elem closePrices) 0);
                  previousClose' = jv_or (meta_chartPreviousClose meta)
                                     (jv_or (first_elem closePrices) currentPrice');
                  change' = (if previousClose' > 0
                             then ((currentPrice' - previousClose') / previousClose') * 100 else 0);
                  validPrices = filter (\<lambda>p. p > 0) closePrices;
                  openPrices = map num_of
                                 (filter (\<lambda>p. p \<noteq> JNull \<and> \<not> isNaN p) (or_empty (quote_open result)));
                  openPrice = jv_or (last_elem openPrices) previousClose'
              in empty_obj
                \<lparr>symbol := Some symb,
                 currency := meta_currency meta,
                 type' := meta_instrumentType meta,
                 price := Some currentPrice',
                 change := Some change',
                 change24h := Some change',
                 history := Some closePrices,
                 timestamps := Some timestamps',
                 open' := Some openPrice,
                 previousClose := Some previousClose',
                 high := Some (jv_or (meta_regularMarketDayHigh meta)
                           (if length validPrices > 0 then math_max validPrices else 0)),
                 low := Some (jv_or (meta_regularMarketDayLow meta)
                           (if length validPrices > 0 then math_min validPrices else 0)),
                 high52w := Some (jv_or (meta_fiftyTwoWeekHigh meta) 0),
                 low52w := Some (jv_or (meta_fiftyTwoWeekLow meta) 0),
                 marketCap := Some 0,
                 volume := Some (jv_or (meta_regularMarketVolume meta) 0),
                 avgVolume := Some 0,
                 pe := Some 0,
                 timestamp := Some now,
                 error := Some False\<rparr>))"

text \<open>\<^verbatim>\<open>quoteResponse.data.quoteResponse?.result?.[0]\<close>: \<open>None\<close> when the access raises,
  \<open>Some None\<close> when there is no quote.\<close>

fun quote_of :: "body \<Rightarrow> quote_data option option" where
  "quote_of (YahooQuote q) = Some q"
| "quote_of NoData = None"
| "quote_of (CoinChart ps) = Some None"
| "quote_of (CoinDetail md r) = Some None"
| "quote_of (YahooChart c) = Some None"

text \<open>\<^verbatim>\<open>v || data.f\<close>\<close>

definition or_field :: "jv \<Rightarrow> real option \<Rightarrow> real option" where
  "or_field v old = (if truthy v then Some (num_of v) else old)"

text \<open>The optional quote request and the fields it overrides.\<close>

definition stock_quote :: "string \<Rightarrow> obj \<Rightarrow> world \<Rightarrow> obj \<times> world" where
  "stock_quote symb data st =
     (case axios_get (stock_quote_request symb) st of
        (Inl e, st1) \<Rightarrow> (data, st1)
      | (Inr quoteResponse, st1) \<Rightarrow>
          (case quote_of quoteResponse of
             None \<Rightarrow> (data, st1)
           | Some None \<Rightarrow> (data, st1)
           | Some (Some quoteData) \<Rightarrow>
               (data\<lparr>marketCap := Some (jv_or (q_marketCap quoteData) 0),
                      pe := Some (jv_or (q_trailingPE quoteData) (jv_or (q_forwardPE quoteData) 0)),
                      avgVolume := Some (jv_or (q_averageDailyVolume3Month quoteData)
                                     (jv_or (q_averageDailyVolume10Day quoteData) 0)),
                      high52w := or_field (q_fiftyTwoWeekHigh quoteData) (high52w data),
                      low52w := or_field (q_fiftyTwoWeekLow quoteData) (low52w data),
                      open' := or_field (q_regularMarketOpen quoteData) (open' data)\<rparr>, st1)))"

text \<open>The \<^verbatim>\<open>try\<close> block of \<^verbatim>\<open>fetchStockData\<close>.\<close>

definition fetchStockData_try ::
  "string \<Rightarrow> string \<Rightarrow> string \<Rightarrow> string \<Rightarrow> world \<Rightarrow> (error + obj) \<times> world" where
  "fetchStockData_try symb interval' range' cacheKey st =
     (case axios_get (stock_chart_request symb interval' range') st of
        (Inl e, st1) \<Rightarrow> (Inl e, st1)
      | (Inr response, st1) \<Rightarrow>
          (case chart_result_of response of
             None \<Rightarrow> (Inl TypeError, st1)
           | Some result \<Rightarrow>
               (case stock_quote symb (stock_asset symb result (clock st1)) st1 of
                  (data, st2) \<Rightarrow> (Inr data, saveFileCache (cache_set cacheKey data st2)))))"

definition stock_placeholder :: "string \<Rightarrow> obj" where
  "stock_placeholder symb = empty_obj
     \<lparr>symbol := Some symb, type' := Some ''stock'', price := Some 0, change := Some 0,
      change24h := Some 0, history := Some [0], open' := Some 0, previousClose := Some 0,
      high := Some 0, low := Some 0, high52w := Some 0, low52w := Some 0,
      marketCap := Some 0, volume := Some 0, avgVolume := Some 0, pe := Some 0,
      error := Some True\<rparr>"

definition stock_cacheKey :: "string \<Rightarrow> int \<Rightarrow> string" where
  "stock_cacheKey symb days = ''stock-'' @ symb @ ''-'' @ show_int days"

definition fetchStockData :: "string \<Rightarrow> int \<Rightarrow> world \<Rightarrow> obj \<times> world" where
  "fetchStockData symb days st =
     (let cacheKey = stock_cacheKey symb days
      in if isCacheValid st cacheKey CACHE_TTL
         then ((spread (cache_get st cacheKey))\<lparr>fromCache := Some True\<rparr>, st)
         else (case range_interval days of
                 (range', interval') \<Rightarrow>
                   (case fetchStockData_try symb interval' range' cacheKey st of
                      (Inr data, st1) \<Rightarrow> (data, st1)
                    | (Inl e, st1) \<Rightarrow>
                        if cache_has st1 cacheKey
                        then ((spread (cache_get st1 cacheKey))\<lparr>error := Some True, fromCache := Some True\<rparr>, st1)
                        else (stock_placeholder symb, st1))))"

section \<open>Aggregator\<close>

text \<open>
  \<^verbatim>\<open>cryptoIds\<close> is the object parsed from the configuration file; its own properties map
  tickers to id strings. The read \<^verbatim>\<open>cryptoIds[ticker]\<close> gives the own property of that
  name when there is one, and otherwise the member of that name that every object
  inherits from \<^verbatim>\<open>Object.prototype\<close>: eleven functions and \<^verbatim>\<open>__proto__\<close>, the prototype
  object itself. Without either the read gives \<^verbatim>\<open>undefined\<close>.
\<close>

definition object_prototype_members :: "string list" where
  "object_prototype_members =
     [''constructor'', ''__defineGetter__'', ''__defineSetter__'', ''hasOwnProperty'',
      ''__lookupGetter__'', ''__lookupSetter__'', ''isPrototypeOf'',
      ''propertyIsEnumerable'', ''toString'', ''valueOf'', ''__proto__'',
      ''toLocaleString'']"

datatype id_value = IdString string | InheritedMember string | IdUndefined

definition lookup_id :: "(string \<rightharpoonup> string) \<Rightarrow> string \<Rightarrow> id_value" where
  "lookup_id cryptoIds ticker =
     (case cryptoIds ticker of
        Some coinId \<Rightarrow> IdString coinId
      | None \<Rightarrow>
          if ticker \<in> set object_prototype_members then InheritedMember ticker
          else IdUndefined)"

text \<open>\<^verbatim>\<open>if (coinId)\<close>: a string is truthy unless it is empty, a function or an object is
  truthy, \<^verbatim>\<open>undefined\<close> is not.\<close>

fun id_truthy :: "id_value \<Rightarrow> bool" where
  "id_truthy (IdString s) = (s \<noteq> [])"
| "id_truthy (InheritedMember m) = True"
| "id_truthy IdUndefined = False"

text \<open>
  \<^verbatim>\<open>fetchCryptoData\<close> uses \<^verbatim>\<open>coinId\<close> in template literals only, so it is handed
  the string a template literal prints for the value: Node prints a built-in function as
  \<^verbatim>\<open>function name() { [native code] }\<close> (the member \<^verbatim>\<open>constructor\<close> is the function
  \<^verbatim>\<open>Object\<close>) and the prototype object as \<^verbatim>\<open>[object Object]\<close>.
\<close>

definition member_text :: "string \<Rightarrow> string" where
  "member_text m =
     (if m = ''__proto__'' then ''[object Object]''
      else ''function '' @ (if m = ''constructor'' then ''Object'' else m)
             @ ''() { [native code] }'')"

fun id_text :: "id_value \<Rightarrow> string" where
  "id_text (IdString s) = s"
| "id_text (InheritedMember m) = member_text m"
| "id_text IdUndefined = ''undefined''"

text \<open>The loop appends one result per ticker to \<^verbatim>\<open>results\<close>.\<close>

fun fetchAllAssets_loop ::
  "string list \<Rightarrow> (string \<rightharpoonup> string) \<Rightarrow> int \<Rightarrow> obj list \<Rightarrow> world \<Rightarrow> obj list \<times> world" where
  "fetchAllAssets_loop [] cryptoIds days results st = (results, st)"
| "fetchAllAssets_loop (ticker # tickers) cryptoIds days results st =
     (case (let coinId = lookup_id cryptoIds ticker
            in if id_truthy coinId then fetchCryptoData ticker (id_text coinId) days st
               else fetchStockData ticker days st) of
        (r, st1) \<Rightarrow> fetchAllAssets_loop tickers cryptoIds days (results @ [r]) st1)"

definition fetchAllAssets ::
  "string list \<Rightarrow> (string \<rightharpoonup> string) \<Rightarrow> int \<Rightarrow> world \<Rightarrow> obj list \<times> world" where
  "fetchAllAssets tickers cryptoIds days st = fetchAllAssets_loop tickers cryptoIds days [] st"

section \<open>Vocabulary of the properties\<close>

text \<open>The outcome of the k-th request made from state \<open>st\<close> on, whether an outcome is
  a failure the fetcher retries, and what the fetcher hands to its caller.\<close>

definition attempt_outcome :: "world \<Rightarrow> request \<Rightarrow> nat \<Rightarrow> error + body" where
  "attempt_outcome st req k = snd (net st (length (requests st) + k) req)"

definition retryable_failure :: "error + body \<Rightarrow> bool" where
  "retryable_failure r = (case r of Inl e \<Rightarrow> shouldRetry (response_status e) | Inr b \<Rightarrow> False)"

definition delivered :: "error + body \<Rightarrow> error + body option" where
  "delivered r = (case r of Inl e \<Rightarrow> Inl e | Inr b \<Rightarrow> Inr (Some b))"

text \<open>
  The shape every returned record should have: a history with at least one sample
  and, when there are timestamps, as many timestamps as samples. Chart records live
  under the keys that start with \<^verbatim>\<open>crypto-\<close> or \<^verbatim>\<open>stock-\<close>; a cache is well-formed
  when every record under such a key has that shape.
\<close>

definition asset_ok :: "obj \<Rightarrow> bool" where
  "asset_ok a =
     (case history a of
        None \<Rightarrow> False
      | Some h \<Rightarrow>
          1 \<le> length h \<and>
          (case timestamps a of None \<Rightarrow> True | Some ts \<Rightarrow> ts = [] \<or> length ts = length h))"

definition chart_key :: "string \<Rightarrow> bool" where
  "chart_key k = (take 7 k = ''crypto-'' \<or> take 6 k = ''stock-'')"

definition cache_ok :: "(string \<times> obj) list \<Rightarrow> bool" where
  "cache_ok c = list_all (\<lambda>(k, e). chart_key k \<longrightarrow> asset_ok e) c"

text \<open>The adapter call made for one ticker: the body of the aggregator's loop.\<close>

definition dispatch :: "(string \<rightharpoonup> string) \<Rightarrow> string \<Rightarrow> int \<Rightarrow> world \<Rightarrow> obj \<times> world" where
  "dispatch cryptoIds ticker days st =
     (let coinId = lookup_id cryptoIds ticker
      in if id_truthy coinId then fetchCryptoData ticker (id_text coinId) days st
         else fetchStockData ticker days st)"

section \<open>Example worlds\<close>

text \<open>The first request is answered with status 429, the second with the chart
  \<open>[100, 105, 110]\<close>, and every later request gets no response.\<close>

definition w_retry :: world where
  "w_retry = \<lparr>clock = 1700000000000, lastCoinGeckoCall = 0, cache = [], disk = [],
     net = (\<lambda>n req.
        if n = 0 then (120, Inl (AxiosError (Some 429)))
        else if n = 1 then (150, Inr (CoinChart (Some
               [(JNum 1699999000000, JNum 100), (JNum 1699999300000, JNum 105),
                (JNum 1699999600000, JNum 110)])))
        else (10000, Inl (AxiosError None))),
     requests = [], random = (\<lambda>n. 1 / 2), randoms_used = 0\<rparr>"

text \<open>Every request gets no response; the cache holds a chart record for \<^verbatim>\<open>AAPL\<close> that
  was stored 90 seconds ago.\<close>

definition cached_aapl :: obj where
  "cached_aapl = empty_obj
     \<lparr>symbol := Some ''AAPL'', type' := Some ''EQUITY'', price := Some 190,
      change := Some 1, change24h := Some 1, history := Some [188, 190],
      timestamps := Some [1699913600000, 1699999910000],
      timestamp := Some 1699999910000, error := Some False\<rparr>"

definition w_down :: world where
  "w_down = \<lparr>clock = 1700000000000, lastCoinGeckoCall = 0,
     cache = [(''stock-AAPL-30'', cached_aapl)], disk = [(''stock-AAPL-30'', cached_aapl)],
     net = (\<lambda>n req. (10000, Inl (AxiosError None))),
     requests = [], random = (\<lambda>n. 0), randoms_used = 0\<rparr>"

text \<open>A chart response of the equity provider, a world in which every request is
  answered with it, and a world in which the first request is throttled (status 429)
  and every later request is answered with it.\<close>

definition aapl_chart :: chart_result where
  "aapl_chart =
     \<lparr>result_meta =
        \<lparr>meta_regularMarketPrice = JNum 190, meta_chartPreviousClose = JNum 160,
         meta_currency = Some ''USD'', meta_instrumentType = Some ''EQUITY'',
         meta_regularMarketDayHigh = JNum 191, meta_regularMarketDayLow = JNum 187,
         meta_fiftyTwoWeekHigh = JNum 199, meta_fiftyTwoWeekLow = JNum 124,
         meta_regularMarketVolume = JNum 50000000\<rparr>,
      quote_close = Some [JNum 182, JNull, JNum 190],
      quote_open = Some [JNum 181, JNull, JNum 189],
      result_timestamp = Some [JNum 1699800000, JNum 1699886400, JNum 1699972800]\<rparr>"

definition w_equity :: world where
  "w_equity = \<lparr>clock = 1700000000000, lastCoinGeckoCall = 0, cache = [], disk = [],
     net = (\<lambda>n req. (150, Inr (YahooChart aapl_chart))),
     requests = [], random = (\<lambda>n. 0), randoms_used = 0\<rparr>"







section \<open>What each primitive step leaves unchanged\<close>

lemma axios_get_requests [simp]:
  "requests (snd (axios_get req st)) = requests st @ [req]"
  by (simp add: axios_get_def split: prod.splits)

lemma axios_get_fst:
  "fst (axios_get req st) = snd (net st (length (requests st)) req)"
  by (simp add: axios_get_def split: prod.splits)

lemma axios_get_keeps [simp]:
  "net (snd (axios_get req st)) = net st"
  "cache (snd (axios_get req st)) = cache st"
  "lastCoinGeckoCall (snd (axios_get req st)) = lastCoinGeckoCall st"
  "randoms_used (snd (axios_get req st)) = randoms_used st"
  "random (snd (axios_get req st)) = random st"
  "disk (snd (axios_get req st)) = disk st"
  by (simp_all add: axios_get_def split: prod.splits)

lemma waitForCoinGecko_keeps [simp]:
  "net (waitForCoinGecko st) = net st"
  "cache (waitForCoinGecko st) = cache st"
  "requests (waitForCoinGecko st) = requests st"
  "randoms_used (waitForCoinGecko st) = randoms_used st"
  "random (waitForCoinGecko st) = random st"
  "disk (waitForCoinGecko st) = disk st"
  by (simp_all add: waitForCoinGecko_def sleep_def Let_def)

lemma sleep_keeps [simp]:
  "net (sleep d st) = net st"
  "cache (sleep d st) = cache st"
  "requests (sleep d st) = requests st"
  "lastCoinGeckoCall (sleep d st) = lastCoinGeckoCall st"
  "disk (sleep d st) = disk st"
  by (simp_all add: sleep_def)

lemma math_random_keeps [simp]:
  "net (snd (math_random st)) = net st"
  "cache (snd (math_random st)) = cache st"
  "requests (snd (math_random st)) = requests st"
  "lastCoinGeckoCall (snd (math_random st)) = lastCoinGeckoCall st"
  "disk (snd (math_random st)) = disk st"
  by (simp_all add: math_random_def)

lemma example_keys:
  "stock_cacheKey ''AAPL'' 30 = ''stock-AAPL-30''"
  "crypto_chartKey ''BTC'' 7 = ''crypto-BTC-7''"
  "crypto_detailKey ''bitcoin'' = ''detail-bitcoin''"
  by (simp_all add: stock_cacheKey_def crypto_chartKey_def crypto_detailKey_def show_int_def
      show_nat.simps)

lemma isCacheValid_entry:
  "isCacheValid st key ttl \<Longrightarrow> \<exists>cached. map_of (cache st) key = Some cached"
  by (auto simp: isCacheValid_def cache_get_def split: option.splits)

section \<open>Cache validity\<close>

text \<open>
  Claim C8. \<^verbatim>\<open>isCacheValid\<close> is true exactly when the key is present, the stored entry
  has a timestamp (a missing, \<^verbatim>\<open>null\<close> or zero timestamp is falsy and counts as
  lacking), and \<open>now - storedAt < ttl\<close>. So it is false for an absent key, false for an
  entry without a timestamp, and for a present entry stamped \<open>t\<close> it is false exactly
  when \<open>now - t \<ge> ttl\<close>.
\<close>

theorem isCacheValid_characterisation:
  "isCacheValid st key ttl \<longleftrightarrow>
     (\<exists>cached t. map_of (cache st) key = Some cached \<and> timestamp cached = Some t
        \<and> t \<noteq> 0 \<and> clock st - t < ttl)"
  by (auto simp: isCacheValid_def cache_get_def split: option.splits)

section \<open>Rate limiter\<close>


section \<open>Retrying fetcher\<close>

lemma attempt_outcome_shift:
  "net st' = net st \<Longrightarrow> requests st' = requests st @ [r] \<Longrightarrow>
   attempt_outcome st' req k = attempt_outcome st req (Suc k)"
  by (simp add: attempt_outcome_def)

lemma first_attempt:
  "fst (axios_get req (waitForCoinGecko st)) = attempt_outcome st req 0"
  by (simp add: axios_get_fst attempt_outcome_def)

lemma retry_loop_from:
  assumes "a + m \<le> R"
    and "\<forall>k<m. retryable_failure (attempt_outcome st req k)"
    and "a + m = R \<or> \<not> retryable_failure (attempt_outcome st req m)"
  shows "requests (snd (axiosGetWithRetry_loop req R b a st)) = requests st @ replicate (Suc m) req
         \<and> fst (axiosGetWithRetry_loop req R b a st) = delivered (attempt_outcome st req m)"
  using assms
proof (induction m arbitrary: a st)
  case 0
  obtain res st2 where ax: "axios_get req (waitForCoinGecko st) = (res, st2)"
    by (cases "axios_get req (waitForCoinGecko st)")
  have res: "res = attempt_outcome st req 0"
    using first_attempt [of req st] ax by simp
  have rq: "requests st2 = requests st @ [req]"
    using axios_get_requests [of req "waitForCoinGecko st"] ax by simp
  from 0 have stop: "a = R \<or> \<not> retryable_failure res" and le: "a \<le> R"
    using res by auto
  show ?case
  proof (cases res)
    case (Inl e)
    with stop have "\<not> (a < R \<and> shouldRetry (response_status e))"
      by (auto simp: retryable_failure_def)
    then have "axiosGetWithRetry_loop req R b a st = (Inl e, st2)"
      using ax Inl le axiosGetWithRetry_loop.simps [of req R b a st] by auto
    then show ?thesis
      using Inl rq res by (simp add: delivered_def)
  next
    case (Inr x)
    then show ?thesis
      using ax le rq res axiosGetWithRetry_loop.simps [of req R b a st]
      by (simp add: delivered_def)
  qed
next
  case (Suc m)
  obtain res st2 where ax: "axios_get req (waitForCoinGecko st) = (res, st2)"
    by (cases "axios_get req (waitForCoinGecko st)")
  have res: "res = attempt_outcome st req 0"
    using first_attempt [of req st] ax by simp
  have rq: "requests st2 = requests st @ [req]"
    using axios_get_requests [of req "waitForCoinGecko st"] ax by simp
  have nt: "net st2 = net st"
    using axios_get_keeps(1) [of req "waitForCoinGecko st"] ax by simp
  from Suc.prems have "retryable_failure res" using res by auto
  then obtain e where e: "res = Inl e" "shouldRetry (response_status e)"
    by (auto simp: retryable_failure_def split: sum.splits)
  from Suc.prems have lt: "a < R" by simp
  obtain u st3 where mr: "math_random st2 = (u, st3)"
    by (cases "math_random st2")
  have st3: "requests st3 = requests st2" "net st3 = net st2"
    using math_random_keeps(3,1) [of st2] mr by simp_all
  define st4 where "st4 = sleep (b * 2 ^ a + real_of_int \<lfloor>u * 300\<rfloor>) st3"
  have st4: "requests st4 = requests st @ [req]" "net st4 = net st"
    by (simp_all add: st4_def st3 rq nt)
  have shift: "\<And>k. attempt_outcome st4 req k = attempt_outcome st req (Suc k)"
    by (rule attempt_outcome_shift [OF st4(2) st4(1)])
  have unfold: "axiosGetWithRetry_loop req R b a st = axiosGetWithRetry_loop req R b (a + 1) st4"
    using ax e lt mr axiosGetWithRetry_loop.simps [of req R b a st]
    by (simp add: st4_def Let_def)
  have IH: "requests (snd (axiosGetWithRetry_loop req R b (a + 1) st4))
              = requests st4 @ replicate (Suc m) req
            \<and> fst (axiosGetWithRetry_loop req R b (a + 1) st4)
              = delivered (attempt_outcome st4 req m)"
  proof (rule Suc.IH)
    show "a + 1 + m \<le> R" using Suc.prems by simp
    show "\<forall>k<m. retryable_failure (attempt_outcome st4 req k)"
      using Suc.prems(2) shift by auto
    show "a + 1 + m = R \<or> \<not> retryable_failure (attempt_outcome st4 req m)"
      using Suc.prems(3) shift by auto
  qed
  then show ?case
    using unfold shift st4 by (simp add: replicate_append_same)
qed

text \<open>Every call has a last attempt: the first one that is not a retryable failure, or
  attempt number \<open>retries\<close>.\<close>

lemma last_attempt_exists:
  "\<exists>m\<le>retries. (\<forall>k<m. retryable_failure (attempt_outcome st req k))
       \<and> (m = retries \<or> \<not> retryable_failure (attempt_outcome st req m))"
proof -
  define stops where
    "stops k \<longleftrightarrow> k = retries \<or> \<not> retryable_failure (attempt_outcome st req k)" for k
  define m where "m = (LEAST k. stops k)"
  have ex: "stops retries" by (simp add: stops_def)
  have "stops m" unfolding m_def using ex by (rule LeastI)
  moreover have "m \<le> retries" unfolding m_def using ex by (rule Least_le)
  moreover have "\<forall>k<m. \<not> stops k" unfolding m_def using not_less_Least by blast
  ultimately show ?thesis unfolding stops_def by blast
qed

text \<open>
  Claim C3. Let the first \<open>m\<close> attempts fail retryably, with \<open>m \<le> retries\<close>, and let
  attempt \<open>m\<close> (counted from 0) either succeed, or fail in a way that is not retried,
  or be attempt number \<open>retries\<close>. Then the fetcher makes exactly \<open>m + 1\<close> requests and
  hands the outcome of the last one to its caller: a failed attempt is followed by
  another one exactly when it is retryable and fewer than \<open>retries\<close> retries were
  used, and the error of the last attempt propagates. A failure is retryable when no
  status was received, and for a received status \<open>s\<close> (never 0 for an HTTP response)
  exactly when \<open>s = 429\<close> or \<open>s \<ge> 500\<close>; the default of \<open>retries\<close> is 3. By
  \<open>last_attempt_exists\<close> every call has such an \<open>m\<close>.
\<close>

theorem axiosGetWithRetry_policy:
  assumes "m \<le> retries"
    and "\<forall>k<m. retryable_failure (attempt_outcome st req k)"
    and "m = retries \<or> \<not> retryable_failure (attempt_outcome st req m)"
  shows "requests (snd (axiosGetWithRetry_loop req retries baseDelay 0 st))
           = requests st @ replicate (Suc m) req
         \<and> fst (axiosGetWithRetry_loop req retries baseDelay 0 st)
           = delivered (attempt_outcome st req m)
         \<and> axiosGetWithRetry req st = axiosGetWithRetry_loop req 3 1000 0 st
         \<and> retryable_failure (Inl (AxiosError None))
         \<and> (\<forall>s. 0 < s \<longrightarrow>
              (retryable_failure (Inl (AxiosError (Some s))) \<longleftrightarrow> s = 429 \<or> 500 \<le> s))
         \<and> (\<forall>b. \<not> retryable_failure (Inr b))"
proof -
  have "requests (snd (axiosGetWithRetry_loop req retries baseDelay 0 st))
           = requests st @ replicate (Suc m) req
         \<and> fst (axiosGetWithRetry_loop req retries baseDelay 0 st)
           = delivered (attempt_outcome st req m)"
    using assms by (intro retry_loop_from) simp_all
  moreover have "\<forall>s. 0 < s \<longrightarrow>
      (retryable_failure (Inl (AxiosError (Some s))) \<longleftrightarrow> s = 429 \<or> 500 \<le> s)"
    by (auto simp: retryable_failure_def shouldRetry_def)
  moreover have "retryable_failure (Inl (AxiosError None))" "\<forall>b. \<not> retryable_failure (Inr b)"
    by (simp_all add: retryable_failure_def shouldRetry_def)
  ultimately show ?thesis
    by (simp add: axiosGetWithRetry_def)
qed

theorem axiosGetWithRetry_policy_witness:
  "requests (snd (axiosGetWithRetry_loop (crypto_chart_request ''bitcoin'' 7) 3 1000 0 w_retry))
     = [crypto_chart_request ''bitcoin'' 7, crypto_chart_request ''bitcoin'' 7]
   \<and> fst (axiosGetWithRetry_loop (crypto_chart_request ''bitcoin'' 7) 3 1000 0 w_retry)
     = Inr (Some (CoinChart (Some
               [(JNum 1699999000000, JNum 100), (JNum 1699999300000, JNum 105),
                (JNum 1699999600000, JNum 110)])))
   \<and> (retryable_failure (Inl (AxiosError (Some 404))) \<longleftrightarrow> False)"
  using axiosGetWithRetry_policy [of 1 3 w_retry "crypto_chart_request ''bitcoin'' 7" 1000]
  by (simp add: attempt_outcome_def retryable_failure_def shouldRetry_def delivered_def
      w_retry_def)

section \<open>Crypto adapter: the fresh path\<close>

lemma retry_loop_keeps:
  "cache (snd (axiosGetWithRetry_loop req R b a st)) = cache st
   \<and> net (snd (axiosGetWithRetry_loop req R b a st)) = net st
   \<and> disk (snd (axiosGetWithRetry_loop req R b a st)) = disk st"
proof (induction req R b a st rule: axiosGetWithRetry_loop.induct)
  case (1 req retries baseDelay attempt st)
  show ?case
  proof (cases "attempt \<le> retries")
    case False
    then show ?thesis
      using axiosGetWithRetry_loop.simps [of req retries baseDelay attempt st] by simp
  next
    case True
    obtain res st2 where ax: "axios_get req (waitForCoinGecko st) = (res, st2)"
      by (cases "axios_get req (waitForCoinGecko st)")
    have st2: "cache st2 = cache st" "net st2 = net st" "disk st2 = disk st"
      using axios_get_keeps(2,1,6) [of req "waitForCoinGecko st"] ax by simp_all
    show ?thesis
    proof (cases res)
      case (Inr x)
      then show ?thesis
        using True ax st2 axiosGetWithRetry_loop.simps [of req retries baseDelay attempt st]
        by simp
    next
      case (Inl e)
      show ?thesis
      proof (cases "attempt < retries \<and> shouldRetry (response_status e)")
        case False
        then have "axiosGetWithRetry_loop req retries baseDelay attempt st = (Inl e, st2)"
          using True ax Inl axiosGetWithRetry_loop.simps [of req retries baseDelay attempt st]
          by auto
        then show ?thesis using st2 by simp
      next
        case go: True
        obtain u st3 where mr: "math_random st2 = (u, st3)"
          by (cases "math_random st2")
        have st3: "cache st3 = cache st2" "net st3 = net st2" "disk st3 = disk st2"
          using math_random_keeps(2,1,5) [of st2] mr by simp_all
        define d where "d = baseDelay * 2 ^ attempt + real_of_int \<lfloor>u * 300\<rfloor>"
        have unfold: "axiosGetWithRetry_loop req retries baseDelay attempt st
                      = axiosGetWithRetry_loop req retries baseDelay (attempt + 1) (sleep d st3)"
          using True ax Inl go mr axiosGetWithRetry_loop.simps [of req retries baseDelay attempt st]
          by (simp add: d_def Let_def)
        have "cache (snd (axiosGetWithRetry_loop req retries baseDelay (attempt + 1) (sleep d st3)))
                = cache (sleep d st3)
              \<and> net (snd (axiosGetWithRetry_loop req retries baseDelay (attempt + 1) (sleep d st3)))
                = net (sleep d st3)
              \<and> disk (snd (axiosGetWithRetry_loop req retries baseDelay (attempt + 1) (sleep d st3)))
                = disk (sleep d st3)"
          using "1.IH" [OF True ax [symmetric] Inl go mr [symmetric] refl refl]
          by (simp add: d_def)
        then show ?thesis
          using unfold st2 st3 by simp
      qed
    qed
  qed
qed


lemma axiosGetWithRetry_keeps:
  assumes "axiosGetWithRetry req st = (r, st1)"
  shows "cache st1 = cache st" "net st1 = net st" "disk st1 = disk st"
  using assms retry_loop_keeps [of req 3 1000 0 st]
  by (simp_all add: axiosGetWithRetry_def)

lemma saveFileCache_keeps [simp]:
  "cache (saveFileCache st) = cache st"
  "net (saveFileCache st) = net st"
  "requests (saveFileCache st) = requests st"
  "clock (saveFileCache st) = clock st"
  "lastCoinGeckoCall (saveFileCache st) = lastCoinGeckoCall st"
  by (simp_all add: saveFileCache_def)

lemma cache_set_keeps [simp]:
  "cache (cache_set k v st) = AList.update k v (cache st)"
  "net (cache_set k v st) = net st"
  "requests (cache_set k v st) = requests st"
  "clock (cache_set k v st) = clock st"
  "lastCoinGeckoCall (cache_set k v st) = lastCoinGeckoCall st"
  by (simp_all add: cache_set_def)

lemma crypto_detail_cache:
  assumes "crypto_detail coinId dk st = (d, st')"
  shows "cache st' = cache st \<or> cache st' = AList.update dk (the d) (cache st)"
proof (cases "if isCacheValid st dk DETAIL_TTL then cache_get st dk else None")
  case (Some x)
  then show ?thesis using assms by (simp add: crypto_detail_def)
next
  case None
  obtain r st1 where ax: "axiosGetWithRetry (crypto_detail_request coinId) st = (r, st1)"
    by (cases "axiosGetWithRetry (crypto_detail_request coinId) st")
  have c1: "cache st1 = cache st" using axiosGetWithRetry_keeps(1) [OF ax] .
  show ?thesis
    using assms None ax c1
    by (auto simp: crypto_detail_def Let_def split: sum.splits option.splits)
qed

lemma fetchCryptoData_try_Inl:
  assumes "fetchCryptoData_try symb coinId days ck dk st = (Inl e, st')"
  shows "cache st' = cache st"
proof -
  obtain r st1 where ax: "axiosGetWithRetry (crypto_chart_request coinId days) st = (r, st1)"
    by (cases "axiosGetWithRetry (crypto_chart_request coinId days) st")
  have c1: "cache st1 = cache st" using axiosGetWithRetry_keeps(1) [OF ax] .
  show ?thesis
    using assms ax c1
    by (auto simp: fetchCryptoData_try_def Let_def split: sum.splits prod.splits)
qed

lemma fetchCryptoData_try_Inr:
  assumes "fetchCryptoData_try symb coinId days ck dk st = (Inr result, st')"
  shows "\<exists>chartResponse st1 pairs detailData st2.
           axiosGetWithRetry (crypto_chart_request coinId days) st = (Inr chartResponse, st1)
         \<and> chart_prices chartResponse = Inr pairs
         \<and> crypto_detail coinId dk st1 = (detailData, st2)
         \<and> result = crypto_asset symb (fst (chart_points (clock st1) pairs))
               (if snd (chart_points (clock st1) pairs) = [] then [0]
                else snd (chart_points (clock st1) pairs)) detailData (clock st2)
         \<and> st' = saveFileCache (cache_set ck result st2)"
  using assms
  by (auto simp: fetchCryptoData_try_def Let_def split: sum.splits prod.splits)



lemma crypto_asset_fields:
  "price (crypto_asset symb tss prices d now) = Some (crypto_currentPrice prices d)"
  "history (crypto_asset symb tss prices d now) = Some prices"
  "timestamps (crypto_asset symb tss prices d now) = Some tss"
  "error (crypto_asset symb tss prices d now) = Some False"
  "fromCache (crypto_asset symb tss prices d now) = None"
  "symbol (crypto_asset symb tss prices d now) = Some symb"
  "type' (crypto_asset symb tss prices d now) = Some ''crypto''"
  "timestamp (crypto_asset symb tss prices d now) = Some now"
  by (simp_all add: crypto_asset_def Let_def empty_obj_def)











section \<open>Equity adapter: structure of a call\<close>

lemma stock_quote_state:
  "snd (stock_quote symb data st) = snd (axios_get (stock_quote_request symb) st)"
  by (simp add: stock_quote_def split: prod.splits sum.splits option.splits)

lemma stock_quote_fields:
  "price (fst (stock_quote symb data st)) = price data"
  "change (fst (stock_quote symb data st)) = change data"
  "change24h (fst (stock_quote symb data st)) = change24h data"
  "previousClose (fst (stock_quote symb data st)) = previousClose data"
  "history (fst (stock_quote symb data st)) = history data"
  "timestamps (fst (stock_quote symb data st)) = timestamps data"
  "error (fst (stock_quote symb data st)) = error data"
  "fromCache (fst (stock_quote symb data st)) = fromCache data"
  by (simp_all add: stock_quote_def split: prod.splits sum.splits option.splits)

lemma fetchStockData_try_failed:
  assumes "attempt_outcome st (stock_chart_request symb i r) 0 = Inl e"
  shows "fetchStockData_try symb i r ck st = (Inl e, snd (axios_get (stock_chart_request symb i r) st))"
  using assms axios_get_fst [of "stock_chart_request symb i r" st]
  by (cases "axios_get (stock_chart_request symb i r) st")
     (simp add: fetchStockData_try_def attempt_outcome_def)

lemma fetchStockData_try_unreadable:
  assumes "attempt_outcome st (stock_chart_request symb i r) 0 = Inr response"
    and "chart_result_of response = None"
  shows "fetchStockData_try symb i r ck st
           = (Inl TypeError, snd (axios_get (stock_chart_request symb i r) st))"
  using assms axios_get_fst [of "stock_chart_request symb i r" st]
  by (cases "axios_get (stock_chart_request symb i r) st")
     (simp add: fetchStockData_try_def attempt_outcome_def)

lemma fetchStockData_try_fresh:
  assumes "attempt_outcome st (stock_chart_request symb i r) 0 = Inr response"
    and "chart_result_of response = Some result"
    and "st1 = snd (axios_get (stock_chart_request symb i r) st)"
    and "data = fst (stock_quote symb (stock_asset symb result (clock st1)) st1)"
  shows "fetchStockData_try symb i r ck st
           = (Inr data, saveFileCache (cache_set ck data
                (snd (axios_get (stock_quote_request symb) st1))))"
  using assms axios_get_fst [of "stock_chart_request symb i r" st]
    stock_quote_state [of symb "stock_asset symb result (clock st1)" st1]
  by (cases "axios_get (stock_chart_request symb i r) st")
     (auto simp: fetchStockData_try_def attempt_outcome_def split: prod.splits)

lemma fetchStockData_try_Inl:
  assumes "fetchStockData_try symb i r ck st = (Inl e, st')"
  shows "st' = snd (axios_get (stock_chart_request symb i r) st)"
proof (cases "attempt_outcome st (stock_chart_request symb i r) 0")
  case (Inl e')
  then show ?thesis using assms fetchStockData_try_failed [OF Inl, of ck] by simp
next
  case (Inr response)
  show ?thesis
  proof (cases "chart_result_of response")
    case None
    then show ?thesis using assms fetchStockData_try_unreadable [OF Inr None, of ck] by simp
  next
    case (Some result)
    then show ?thesis using assms fetchStockData_try_fresh [OF Inr Some refl refl, of ck] by simp
  qed
qed


lemma retries_exhausted:
  assumes "\<forall>k<4. retryable_failure (attempt_outcome st req k)"
  shows "\<exists>e. fst (axiosGetWithRetry req st) = Inl e"
proof -
  have "fst (axiosGetWithRetry_loop req 3 1000 0 st) = delivered (attempt_outcome st req 3)"
    using assms retry_loop_from [of 0 3 3 st req 1000] by simp
  moreover obtain e where "attempt_outcome st req 3 = Inl e"
    using assms [rule_format, of 3] by (auto simp: retryable_failure_def split: sum.splits)
  ultimately show ?thesis
    by (simp add: axiosGetWithRetry_def delivered_def)
qed

lemma fetchCryptoData_try_chart_failed:
  assumes "fst (axiosGetWithRetry (crypto_chart_request coinId days) st) = Inl e"
  shows "fst (fetchCryptoData_try symb coinId days ck dk st) = Inl e"
  using assms
  by (cases "axiosGetWithRetry (crypto_chart_request coinId days) st")
     (simp add: fetchCryptoData_try_def)

lemma placeholder_fields:
  "price (crypto_placeholder symb) = Some 0"
  "error (crypto_placeholder symb) = Some True"
  "fromCache (crypto_placeholder symb) = None"
  "history (crypto_placeholder symb) = Some [0]"
  "timestamps (crypto_placeholder symb) = None"
  "type' (crypto_placeholder symb) = Some ''crypto''"
  "price (stock_placeholder symb) = Some 0"
  "error (stock_placeholder symb) = Some True"
  "fromCache (stock_placeholder symb) = None"
  "history (stock_placeholder symb) = Some [0]"
  "timestamps (stock_placeholder symb) = None"
  "type' (stock_placeholder symb) = Some ''stock''"
  by (simp_all add: crypto_placeholder_def stock_placeholder_def empty_obj_def)

section \<open>Fallback of the adapters\<close>

text \<open>
  Claim C2. When the \<^verbatim>\<open>try\<close> block of an adapter raises (the call found no valid cached
  record and the pipeline ended in an error), the adapter still returns a record: the
  cached record of the asset's cache key with \<open>error = true\<close> and \<open>fromCache = true\<close>
  when the cache has one, and otherwise the placeholder, whose price is 0, whose
  \<open>error\<close> is \<open>true\<close> and which has no \<open>fromCache\<close> field (so it reads as false).
\<close>

theorem adapter_fallback:
  "(\<not> isCacheValid st (crypto_chartKey symb days) CACHE_TTL \<and>
    fst (fetchCryptoData_try symb coinId days (crypto_chartKey symb days)
           (crypto_detailKey coinId) st) = Inl e
    \<longrightarrow> fst (fetchCryptoData symb coinId days st) =
          (case map_of (cache st) (crypto_chartKey symb days) of
             Some cached \<Rightarrow> cached\<lparr>error := Some True, fromCache := Some True\<rparr>
           | None \<Rightarrow> crypto_placeholder symb))
   \<and> (\<not> isCacheValid st (stock_cacheKey symb days) CACHE_TTL \<and>
      fst (fetchStockData_try symb (snd (range_interval days)) (fst (range_interval days))
             (stock_cacheKey symb days) st) = Inl e
      \<longrightarrow> fst (fetchStockData symb days st) =
            (case map_of (cache st) (stock_cacheKey symb days) of
               Some cached \<Rightarrow> cached\<lparr>error := Some True, fromCache := Some True\<rparr>
             | None \<Rightarrow> stock_placeholder symb))
   \<and> price (crypto_placeholder symb) = Some 0
   \<and> error (crypto_placeholder symb) = Some True
   \<and> fromCache (crypto_placeholder symb) = None
   \<and> price (stock_placeholder symb) = Some 0
   \<and> error (stock_placeholder symb) = Some True
   \<and> fromCache (stock_placeholder symb) = None"
proof -
  have crypto: "fst (fetchCryptoData symb coinId days st) =
          (case map_of (cache st) (crypto_chartKey symb days) of
             Some cached \<Rightarrow> cached\<lparr>error := Some True, fromCache := Some True\<rparr>
           | None \<Rightarrow> crypto_placeholder symb)"
    if inv: "\<not> isCacheValid st (crypto_chartKey symb days) CACHE_TTL"
      and fail: "fst (fetchCryptoData_try symb coinId days (crypto_chartKey symb days)
           (crypto_detailKey coinId) st) = Inl e"
  proof -
    obtain st' where tr: "fetchCryptoData_try symb coinId days (crypto_chartKey symb days)
           (crypto_detailKey coinId) st = (Inl e, st')"
      using fail by (cases "fetchCryptoData_try symb coinId days (crypto_chartKey symb days)
           (crypto_detailKey coinId) st") simp
    have "cache st' = cache st" using fetchCryptoData_try_Inl [OF tr] .
    then show ?thesis
      using inv tr
      by (simp add: fetchCryptoData_def Let_def cache_has_def cache_get_def spread_def
          split: option.splits)
  qed
  have stock: "fst (fetchStockData symb days st) =
            (case map_of (cache st) (stock_cacheKey symb days) of
               Some cached \<Rightarrow> cached\<lparr>error := Some True, fromCache := Some True\<rparr>
             | None \<Rightarrow> stock_placeholder symb)"
    if inv: "\<not> isCacheValid st (stock_cacheKey symb days) CACHE_TTL"
      and fail: "fst (fetchStockData_try symb (snd (range_interval days)) (fst (range_interval days))
             (stock_cacheKey symb days) st) = Inl e"
  proof -
    obtain r i where ri: "range_interval days = (r, i)"
      by (cases "range_interval days")
    obtain st' where tr: "fetchStockData_try symb i r (stock_cacheKey symb days) st = (Inl e, st')"
      using fail ri by (cases "fetchStockData_try symb i r (stock_cacheKey symb days) st") simp
    have "cache st' = cache st" using fetchStockData_try_Inl [OF tr] by simp
    then show ?thesis
      using inv tr ri
      by (simp add: fetchStockData_def Let_def cache_has_def cache_get_def spread_def
          split: option.splits)
  qed
  show ?thesis
    using crypto stock by (simp add: placeholder_fields)
qed


theorem adapter_fallback_witness:
  "fst (fetchStockData ''AAPL'' 30 w_down) = cached_aapl\<lparr>error := Some True, fromCache := Some True\<rparr>
   \<and> fst (fetchCryptoData ''BTC'' ''bitcoin'' 7 w_down) = crypto_placeholder ''BTC''"
proof -
  have inv1: "\<not> isCacheValid w_down (stock_cacheKey ''AAPL'' 30) CACHE_TTL"
    by (simp add: example_keys isCacheValid_def cache_get_def w_down_def cached_aapl_def
        empty_obj_def CACHE_TTL_def)
  have inv2: "\<not> isCacheValid w_down (crypto_chartKey ''BTC'' 7) CACHE_TTL"
    by (simp add: example_keys isCacheValid_def cache_get_def w_down_def)
  have ri: "range_interval 30 = (''1mo'', ''1d'')"
    by (simp add: range_interval_def)
  have f1: "fst (fetchStockData_try ''AAPL'' (snd (range_interval 30)) (fst (range_interval 30))
                  (stock_cacheKey ''AAPL'' 30) w_down) = Inl (AxiosError None)"
    using fetchStockData_try_failed [of w_down "''AAPL''" "''1d''" "''1mo''" "AxiosError None"]
    by (simp add: ri attempt_outcome_def w_down_def)
  have "\<forall>k<4. retryable_failure (attempt_outcome w_down (crypto_chart_request ''bitcoin'' 7) k)"
    by (simp add: attempt_outcome_def retryable_failure_def shouldRetry_def w_down_def)
  then obtain e where "fst (axiosGetWithRetry (crypto_chart_request ''bitcoin'' 7) w_down) = Inl e"
    using retries_exhausted by blast
  then have f2: "fst (fetchCryptoData_try ''BTC'' ''bitcoin'' 7 (crypto_chartKey ''BTC'' 7)
                   (crypto_detailKey ''bitcoin'') w_down) = Inl e"
    by (rule fetchCryptoData_try_chart_failed)
  have c1: "map_of (cache w_down) (stock_cacheKey ''AAPL'' 30) = Some cached_aapl"
    by (simp add: example_keys w_down_def)
  have c2: "map_of (cache w_down) (crypto_chartKey ''BTC'' 7) = None"
    by (simp add: example_keys w_down_def)
  show ?thesis
    using adapter_fallback [of w_down "''AAPL''" 30 "''bitcoin''" "AxiosError None"]
      adapter_fallback [of w_down "''BTC''" 7 "''bitcoin''" e]
      inv1 inv2 f1 f2 c1 c2
    by simp
qed

lemma fetchStockData_invalid:
  assumes "\<not> isCacheValid st (stock_cacheKey symb days) CACHE_TTL"
    and "fetchStockData_try symb (snd (range_interval days)) (fst (range_interval days))
           (stock_cacheKey symb days) st = (r, st')"
  shows "snd (fetchStockData symb days st) = st'"
    and "r = Inr data \<Longrightarrow> fst (fetchStockData symb days st) = data"
  using assms
  by (simp_all add: fetchStockData_def Let_def case_prod_beta split: sum.splits)

lemma fetchStockData_try_trace:
  "requests (snd (fetchStockData_try symb i r ck st))
     = requests st @ stock_chart_request symb i r #
         (case fst (fetchStockData_try symb i r ck st) of
            Inl e \<Rightarrow> [] | Inr d \<Rightarrow> [stock_quote_request symb])
   \<and> lastCoinGeckoCall (snd (fetchStockData_try symb i r ck st)) = lastCoinGeckoCall st"
proof (cases "attempt_outcome st (stock_chart_request symb i r) 0")
  case (Inl e)
  show ?thesis by (simp add: fetchStockData_try_failed [OF Inl])
next
  case (Inr response)
  show ?thesis
  proof (cases "chart_result_of response")
    case None
    show ?thesis by (simp add: fetchStockData_try_unreadable [OF Inr None])
  next
    case (Some result)
    show ?thesis by (simp add: fetchStockData_try_fresh [OF Inr Some refl refl])
  qed
qed



lemma fetchStockData_chart_failed:
  assumes "\<not> isCacheValid st (stock_cacheKey symb days) CACHE_TTL"
    and "attempt_outcome st (stock_chart_request symb (snd (range_interval days))
           (fst (range_interval days))) 0 = Inl e"
  shows "snd (fetchStockData symb days st)
           = snd (axios_get (stock_chart_request symb (snd (range_interval days))
                   (fst (range_interval days))) st)"
    and "fst (fetchStockData symb days st) =
           (case map_of (cache st) (stock_cacheKey symb days) of
              Some cached \<Rightarrow> cached\<lparr>error := Some True, fromCache := Some True\<rparr>
            | None \<Rightarrow> stock_placeholder symb)"
  using assms(1) fetchStockData_try_failed [OF assms(2), of "stock_cacheKey symb days"]
  by (simp_all add: fetchStockData_def Let_def case_prod_beta cache_has_def cache_get_def
      spread_def split: option.splits)

section \<open>Equity adapter: requests, look-back policy and change\<close>





text \<open>
  Claim C7. When there is no valid cached record, the first request of
  \<^verbatim>\<open>fetchStockData\<close> is the chart request whose \<open>range\<close> and \<open>interval\<close>
  parameters follow the policy: \<open>days \<le> 1\<close> gives (1d, 1h), \<open>days \<le> 7\<close> gives
  (7d, 1d), \<open>days \<le> 30\<close> gives (1mo, 1d), anything larger (3mo, 1d). For 30 days
  the pair is (1mo, 1d).
\<close>

theorem fetchStockData_range_interval:
  assumes "\<not> isCacheValid st (stock_cacheKey symb days) CACHE_TTL"
  shows "(\<exists>range' interval' rest.
            requests (snd (fetchStockData symb days st))
              = requests st @ stock_chart_request symb interval' range' # rest
          \<and> params (stock_chart_request symb interval' range')
              = [(''interval'', interval'), (''range'', range')]
          \<and> (range', interval') =
              (if days \<le> 1 then (''1d'', ''1h'')
               else if days \<le> 7 then (''7d'', ''1d'')
               else if days \<le> 30 then (''1mo'', ''1d'')
               else (''3mo'', ''1d'')))
         \<and> range_interval 30 = (''1mo'', ''1d'')"
proof -
  obtain r st' where tr: "fetchStockData_try symb (snd (range_interval days))
      (fst (range_interval days)) (stock_cacheKey symb days) st = (r, st')"
    by (cases "fetchStockData_try symb (snd (range_interval days))
      (fst (range_interval days)) (stock_cacheKey symb days) st")
  have "requests (snd (fetchStockData symb days st))
          = requests st @ stock_chart_request symb (snd (range_interval days))
              (fst (range_interval days)) #
              (case r of Inl e \<Rightarrow> [] | Inr d \<Rightarrow> [stock_quote_request symb])"
    using fetchStockData_invalid(1) [OF assms tr] tr
      fetchStockData_try_trace [of symb "snd (range_interval days)" "fst (range_interval days)"
        "stock_cacheKey symb days" st]
    by simp
  moreover have "(fst (range_interval days), snd (range_interval days)) =
              (if days \<le> 1 then (''1d'', ''1h'')
               else if days \<le> 7 then (''7d'', ''1d'')
               else if days \<le> 30 then (''1mo'', ''1d'')
               else (''3mo'', ''1d''))"
    by (simp add: range_interval_def)
  moreover have "params (stock_chart_request symb (snd (range_interval days))
                   (fst (range_interval days)))
                 = [(''interval'', snd (range_interval days)), (''range'', fst (range_interval days))]"
    by (simp add: stock_chart_request_def)
  moreover have "range_interval 30 = (''1mo'', ''1d'')"
    by (simp add: range_interval_def)
  ultimately show ?thesis by blast
qed

theorem fetchStockData_range_interval_witness:
  "params (hd (requests (snd (fetchStockData ''AAPL'' 30 w_equity))))
     = [(''interval'', ''1d''), (''range'', ''1mo'')]"
proof -
  have inv: "\<not> isCacheValid w_equity (stock_cacheKey ''AAPL'' 30) CACHE_TTL"
    by (simp add: isCacheValid_def cache_get_def w_equity_def)
  have "requests w_equity = []" by (simp add: w_equity_def)
  then show ?thesis
    using fetchStockData_range_interval [OF inv] by auto
qed

lemma stock_asset_fields:
  "error (stock_asset symb result now) = Some False"
  "change24h (stock_asset symb result now) = change (stock_asset symb result now)"
  "price (stock_asset symb result now) \<noteq> None"
  "previousClose (stock_asset symb result now) \<noteq> None"
  "change (stock_asset symb result now)
     = Some (if the (previousClose (stock_asset symb result now)) > 0
             then (the (price (stock_asset symb result now))
                    - the (previousClose (stock_asset symb result now)))
                  / the (previousClose (stock_asset symb result now)) * 100
             else 0)"
  "fromCache (stock_asset symb result now) = None"
  by (simp_all add: stock_asset_def Let_def empty_obj_def split: prod.splits)

text \<open>
  Claim C10. On the fresh path of \<^verbatim>\<open>fetchStockData\<close> (no valid cached record, the chart
  request succeeds and its body can be read) the result is not an error record and
  its \<open>change24h\<close> equals its \<open>change\<close>, which is the percent change of the price
  against the previous close of the selected look-back window (0 when that close is
  not positive); no separate 24-hour figure is computed.
\<close>

theorem fetchStockData_change24h:
  assumes "\<not> isCacheValid st (stock_cacheKey symb days) CACHE_TTL"
    and "attempt_outcome st (stock_chart_request symb (snd (range_interval days))
           (fst (range_interval days))) 0 = Inr response"
    and "chart_result_of response = Some result"
  shows "error (fst (fetchStockData symb days st)) = Some False
         \<and> change24h (fst (fetchStockData symb days st)) = change (fst (fetchStockData symb days st))
         \<and> (\<exists>p pc. price (fst (fetchStockData symb days st)) = Some p
                \<and> previousClose (fst (fetchStockData symb days st)) = Some pc
                \<and> change (fst (fetchStockData symb days st))
                    = Some (if pc > 0 then (p - pc) / pc * 100 else 0))"
proof -
  define st1 where "st1 = snd (axios_get (stock_chart_request symb (snd (range_interval days))
                            (fst (range_interval days))) st)"
  define data where "data = fst (stock_quote symb (stock_asset symb result (clock st1)) st1)"
  have "fst (fetchStockData symb days st) = data"
    using fetchStockData_invalid(2) [OF assms(1)
        fetchStockData_try_fresh [OF assms(2,3) st1_def data_def] refl] .
  then show ?thesis
    using stock_asset_fields(1-5) [of symb result "clock st1"]
    by (auto simp: data_def stock_quote_fields)
qed

theorem fetchStockData_change24h_witness:
  "change24h (fst (fetchStockData ''AAPL'' 30 w_equity)) = Some (75 / 4)
   \<and> change (fst (fetchStockData ''AAPL'' 30 w_equity)) = Some (75 / 4)
   \<and> price (fst (fetchStockData ''AAPL'' 30 w_equity)) = Some 190
   \<and> previousClose (fst (fetchStockData ''AAPL'' 30 w_equity)) = Some 160"
proof -
  have ri: "range_interval 30 = (''1mo'', ''1d'')"
    by (simp add: range_interval_def)
  have inv: "\<not> isCacheValid w_equity (stock_cacheKey ''AAPL'' 30) CACHE_TTL"
    by (simp add: isCacheValid_def cache_get_def w_equity_def)
  have out: "attempt_outcome w_equity (stock_chart_request ''AAPL'' (snd (range_interval 30))
           (fst (range_interval 30))) 0 = Inr (YahooChart aapl_chart)"
    by (simp add: attempt_outcome_def w_equity_def)
  have res: "chart_result_of (YahooChart aapl_chart) = Some aapl_chart"
    by simp
  define st1 where "st1 = snd (axios_get (stock_chart_request ''AAPL'' (snd (range_interval 30))
                            (fst (range_interval 30))) w_equity)"
  define data where "data = fst (stock_quote ''AAPL'' (stock_asset ''AAPL'' aapl_chart (clock st1)) st1)"
  have eq: "fst (fetchStockData ''AAPL'' 30 w_equity) = data"
    using fetchStockData_invalid(2) [OF inv
        fetchStockData_try_fresh [OF out res st1_def data_def] refl] .
  have p: "price data = Some 190" "previousClose data = Some 160"
    by (simp_all add: data_def stock_quote_fields stock_asset_def aapl_chart_def Let_def
        or_empty_def jv_or_def empty_obj_def split: prod.splits)
  show ?thesis
    using fetchStockData_change24h [OF inv out res] p by (auto simp: eq)
qed

section \<open>Shape of the returned records\<close>

lemma chart_points_lengths:
  "length (fst (chart_points now pairs)) = length (snd (chart_points now pairs))"
  by (induction pairs) (auto split: prod.splits)

lemma close_points_lengths:
  "length (snd (close_points now tss i closes)) = length (fst (close_points now tss i closes))"
proof (induction closes arbitrary: i)
  case Nil
  show ?case by simp
next
  case (Cons val closes)
  show ?case
    using Cons.IH [of "Suc i"] by (auto split: prod.splits)
qed

lemma cache_ok_update:
  "cache_ok c \<Longrightarrow> chart_key k \<longrightarrow> asset_ok v \<Longrightarrow> cache_ok (AList.update k v c)"
  by (induction c) (auto simp: cache_ok_def)

lemma cache_ok_lookup:
  "cache_ok c \<Longrightarrow> map_of c k = Some e \<Longrightarrow> chart_key k \<Longrightarrow> asset_ok e"
  by (auto simp: cache_ok_def list_all_iff dest: map_of_SomeD)

lemma chart_keys:
  "chart_key (crypto_chartKey symb days)"
  "chart_key (stock_cacheKey symb days)"
  "\<not> chart_key (crypto_detailKey coinId)"
  by (simp_all add: chart_key_def crypto_chartKey_def stock_cacheKey_def crypto_detailKey_def)

lemma asset_ok_flags:
  "asset_ok (a\<lparr>fromCache := f\<rparr>) = asset_ok a"
  "asset_ok (a\<lparr>error := e\<rparr>) = asset_ok a"
  by (simp_all add: asset_ok_def split: option.splits)

lemma asset_ok_placeholders:
  "asset_ok (crypto_placeholder symb)" "asset_ok (stock_placeholder symb)"
  by (simp_all add: asset_ok_def placeholder_fields)

lemma asset_ok_crypto_asset:
  "prices \<noteq> [] \<Longrightarrow> tss = [] \<or> length tss = length prices \<Longrightarrow>
   asset_ok (crypto_asset symb tss prices d now)"
  by (cases prices) (simp_all add: asset_ok_def crypto_asset_fields)

lemma stock_asset_history:
  "history (stock_asset symb result now) =
     Some (if fst (close_points now (or_empty (result_timestamp result)) 0
                    (or_empty (quote_close result))) = [] then [0]
           else fst (close_points now (or_empty (result_timestamp result)) 0
                    (or_empty (quote_close result))))"
  "timestamps (stock_asset symb result now) =
     Some (snd (close_points now (or_empty (result_timestamp result)) 0
                    (or_empty (quote_close result))))"
  by (simp_all add: stock_asset_def Let_def empty_obj_def split: prod.splits)

lemma asset_ok_stock_asset:
  "asset_ok (stock_asset symb result now)"
  using close_points_lengths [of now "or_empty (result_timestamp result)" 0
      "or_empty (quote_close result)"]
  by (auto simp: asset_ok_def stock_asset_history Suc_le_eq)

lemma asset_ok_stock_quote:
  "asset_ok (fst (stock_quote symb data st)) = asset_ok data"
  by (simp add: asset_ok_def stock_quote_fields split: option.splits)


lemma flagged_cached_ok:
  assumes "cache_ok (cache st)" and "chart_key key" and "map_of (cache st) key = Some cached"
  shows "asset_ok ((spread (cache_get st key))\<lparr>fromCache := f\<rparr>)"
    and "asset_ok ((spread (cache_get st key))\<lparr>error := e, fromCache := f\<rparr>)"
  using cache_ok_lookup [OF assms(1,3,2)] assms(3)
  by (simp_all add: asset_ok_flags spread_def cache_get_def)

lemma fetchCryptoData_ok:
  assumes ok: "cache_ok (cache st)"
  shows "asset_ok (fst (fetchCryptoData symb coinId days st))
         \<and> cache_ok (cache (snd (fetchCryptoData symb coinId days st)))"
proof (cases "isCacheValid st (crypto_chartKey symb days) CACHE_TTL")
  case True
  then obtain cached where "map_of (cache st) (crypto_chartKey symb days) = Some cached"
    using isCacheValid_entry by blast
  then show ?thesis
    using True ok flagged_cached_ok(1) [OF ok chart_keys(1)]
    by (simp add: fetchCryptoData_def Let_def)
next
  case False
  obtain r st' where tr: "fetchCryptoData_try symb coinId days (crypto_chartKey symb days)
      (crypto_detailKey coinId) st = (r, st')"
    by (cases "fetchCryptoData_try symb coinId days (crypto_chartKey symb days)
      (crypto_detailKey coinId) st")
  show ?thesis
  proof (cases r)
    case (Inl e)
    have same: "cache st' = cache st"
      using fetchCryptoData_try_Inl tr Inl by blast
    then have ok': "cache_ok (cache st')" using ok by simp
    show ?thesis
    proof (cases "map_of (cache st') (crypto_chartKey symb days)")
      case None
      then show ?thesis
        using False tr Inl ok'
        by (simp add: fetchCryptoData_def Let_def cache_has_def asset_ok_placeholders)
    next
      case (Some cached)
      then show ?thesis
        using False tr Inl ok' flagged_cached_ok(2) [OF ok' chart_keys(1) Some]
        by (simp add: fetchCryptoData_def Let_def cache_has_def)
    qed
  next
    case (Inr result)
    then obtain chartResponse st1 pairs detailData st2 where
      ax: "axiosGetWithRetry (crypto_chart_request coinId days) st = (Inr chartResponse, st1)"
      and cd: "crypto_detail coinId (crypto_detailKey coinId) st1 = (detailData, st2)"
      and res: "result = crypto_asset symb (fst (chart_points (clock st1) pairs))
               (if snd (chart_points (clock st1) pairs) = [] then [0]
                else snd (chart_points (clock st1) pairs)) detailData (clock st2)"
      and st': "st' = saveFileCache (cache_set (crypto_chartKey symb days) result st2)"
      using fetchCryptoData_try_Inr tr by blast
    have rok: "asset_ok result"
      unfolding res
      using chart_points_lengths [of "clock st1" pairs]
      by (intro asset_ok_crypto_asset) auto
    have "cache_ok (cache st1)"
      using ok axiosGetWithRetry_keeps(1) [OF ax] by simp
    then have "cache_ok (cache st2)"
      using crypto_detail_cache [OF cd] chart_keys(3) [of coinId]
      by (auto intro: cache_ok_update)
    then have "cache_ok (cache st')"
      using rok by (simp add: st' cache_ok_update)
    then show ?thesis
      using False tr Inr rok by (simp add: fetchCryptoData_def Let_def)
  qed
qed

lemma fetchStockData_ok:
  assumes ok: "cache_ok (cache st)"
  shows "asset_ok (fst (fetchStockData symb days st))
         \<and> cache_ok (cache (snd (fetchStockData symb days st)))"
proof (cases "isCacheValid st (stock_cacheKey symb days) CACHE_TTL")
  case True
  then obtain cached where "map_of (cache st) (stock_cacheKey symb days) = Some cached"
    using isCacheValid_entry by blast
  then show ?thesis
    using True ok flagged_cached_ok(1) [OF ok chart_keys(2)]
    by (simp add: fetchStockData_def Let_def)
next
  case False
  define req where "req = stock_chart_request symb (snd (range_interval days))
                            (fst (range_interval days))"
  define st1 where "st1 = snd (axios_get req st)"
  have c1: "cache st1 = cache st" by (simp add: st1_def)
  have failed: ?thesis
    if "fetchStockData_try symb (snd (range_interval days)) (fst (range_interval days))
          (stock_cacheKey symb days) st = (Inl e, st1)" for e
  proof (cases "map_of (cache st) (stock_cacheKey symb days)")
    case None
    then show ?thesis
      using False that ok c1
      by (simp add: fetchStockData_def Let_def case_prod_beta cache_has_def
          asset_ok_placeholders)
  next
    case (Some cached)
    have ok1: "cache_ok (cache st1)" using ok c1 by simp
    have "map_of (cache st1) (stock_cacheKey symb days) = Some cached"
      using Some c1 by simp
    then show ?thesis
      using False that ok1 flagged_cached_ok(2) [OF ok1 chart_keys(2)]
      by (simp add: fetchStockData_def Let_def case_prod_beta cache_has_def)
  qed
  show ?thesis
  proof (cases "attempt_outcome st req 0")
    case (Inl e)
    show ?thesis
      using failed fetchStockData_try_failed [OF Inl [unfolded req_def]]
      by (simp add: st1_def req_def)
  next
    case (Inr response)
    show ?thesis
    proof (cases "chart_result_of response")
      case None
      show ?thesis
        using failed fetchStockData_try_unreadable [OF Inr [unfolded req_def] None]
        by (simp add: st1_def req_def)
    next
      case (Some result)
      define data where "data = fst (stock_quote symb (stock_asset symb result (clock st1)) st1)"
      have dok: "asset_ok data"
        by (simp add: data_def asset_ok_stock_quote asset_ok_stock_asset)
      have tr: "fetchStockData_try symb (snd (range_interval days)) (fst (range_interval days))
                  (stock_cacheKey symb days) st
                = (Inr data, saveFileCache (cache_set (stock_cacheKey symb days) data
                     (snd (axios_get (stock_quote_request symb) st1))))"
        using fetchStockData_try_fresh [OF Inr [unfolded req_def] Some]
        by (simp add: st1_def req_def data_def)
      have "cache_ok (AList.update (stock_cacheKey symb days) data (cache st))"
        using ok dok by (simp add: cache_ok_update)
      then show ?thesis
        using False tr dok c1
        by (simp add: fetchStockData_def Let_def case_prod_beta)
    qed
  qed
qed


section \<open>Aggregator: order and dispatch\<close>

lemma fetchAllAssets_loop_step:
  "fetchAllAssets_loop (ticker # tickers) cryptoIds days results st =
     fetchAllAssets_loop tickers cryptoIds days
       (results @ [fst (dispatch cryptoIds ticker days st)])
       (snd (dispatch cryptoIds ticker days st))"
  by (simp add: dispatch_def case_prod_beta)

lemma fetchAllAssets_loop_append:
  "fetchAllAssets_loop (ts @ us) cryptoIds days results st =
     fetchAllAssets_loop us cryptoIds days
       (fst (fetchAllAssets_loop ts cryptoIds days results st))
       (snd (fetchAllAssets_loop ts cryptoIds days results st))"
proof (induction ts arbitrary: results st)
  case Nil
  show ?case by simp
next
  case (Cons t ts)
  show ?case
    unfolding append_Cons fetchAllAssets_loop_step by (rule Cons.IH)
qed

lemma fetchAllAssets_snoc:
  "fetchAllAssets (ts @ [t]) cryptoIds days st =
     (fst (fetchAllAssets ts cryptoIds days st)
        @ [fst (dispatch cryptoIds t days (snd (fetchAllAssets ts cryptoIds days st)))],
      snd (dispatch cryptoIds t days (snd (fetchAllAssets ts cryptoIds days st))))"
  unfolding fetchAllAssets_def fetchAllAssets_loop_append fetchAllAssets_loop_step
  by simp

lemma fetchAllAssets_length:
  "length (fst (fetchAllAssets tickers cryptoIds days st)) = length tickers"
proof (induction tickers rule: rev_induct)
  case Nil
  show ?case by (simp add: fetchAllAssets_def)
next
  case (snoc t ts)
  then show ?case by (simp add: fetchAllAssets_snoc)
qed

lemma fetchAllAssets_nth:
  "i < length tickers \<Longrightarrow>
   fst (fetchAllAssets tickers cryptoIds days st) ! i =
     fst (dispatch cryptoIds (tickers ! i) days
            (snd (fetchAllAssets (take i tickers) cryptoIds days st)))"
proof (induction tickers rule: rev_induct)
  case Nil
  then show ?case by simp
next
  case (snoc t ts)
  show ?case
  proof (cases "i < length ts")
    case True
    then show ?thesis
      using snoc.IH by (simp add: fetchAllAssets_snoc nth_append fetchAllAssets_length)
  next
    case False
    then have "i = length ts" using snoc.prems by simp
    then show ?thesis
      by (simp add: fetchAllAssets_snoc nth_append fetchAllAssets_length)
  qed
qed

lemma dispatch_ok:
  "cache_ok (cache st) \<Longrightarrow>
   asset_ok (fst (dispatch cryptoIds ticker days st))
   \<and> cache_ok (cache (snd (dispatch cryptoIds ticker days st)))"
  by (simp add: dispatch_def Let_def fetchCryptoData_ok fetchStockData_ok)

lemma fetchAllAssets_ok:
  "cache_ok (cache st) \<Longrightarrow>
   list_all asset_ok (fst (fetchAllAssets tickers cryptoIds days st))
   \<and> cache_ok (cache (snd (fetchAllAssets tickers cryptoIds days st)))"
proof (induction tickers rule: rev_induct)
  case Nil
  then show ?case by (simp add: fetchAllAssets_def)
next
  case (snoc t ts)
  then show ?case
    using dispatch_ok [of "snd (fetchAllAssets ts cryptoIds days st)" cryptoIds t days]
    by (simp add: fetchAllAssets_snoc)
qed

text \<open>
  Claim C9. Starting from a well-formed cache (the empty cache is one), every record
  returned by either adapter, fresh, cached or placeholder, and every record returned
  by the aggregator has a history of length at least 1 and, when its timestamps are
  non-empty, as many timestamps as history samples; the cache stays well-formed. When
  no close survives the filter the fresh equity history is \<open>[0]\<close> (the crypto history
  is treated with claim C6).
\<close>

theorem returned_assets_shape:
  assumes "cache_ok (cache st)"
  shows "asset_ok (fst (fetchCryptoData symb coinId days st))
         \<and> cache_ok (cache (snd (fetchCryptoData symb coinId days st)))
         \<and> asset_ok (fst (fetchStockData symb days st))
         \<and> cache_ok (cache (snd (fetchStockData symb days st)))
         \<and> list_all asset_ok (fst (fetchAllAssets tickers cryptoIds days st))
         \<and> cache_ok (cache (snd (fetchAllAssets tickers cryptoIds days st)))
         \<and> cache_ok []
         \<and> history (stock_asset symb result now) =
             Some (if fst (close_points now (or_empty (result_timestamp result)) 0
                            (or_empty (quote_close result))) = [] then [0]
                   else fst (close_points now (or_empty (result_timestamp result)) 0
                            (or_empty (quote_close result))))"
  using fetchCryptoData_ok [OF assms] fetchStockData_ok [OF assms] fetchAllAssets_ok [OF assms]
  by (simp add: stock_asset_history cache_ok_def)

theorem returned_assets_shape_witness:
  "asset_ok (fst (fetchStockData ''AAPL'' 30 w_down))
   \<and> asset_ok (fst (fetchCryptoData ''BTC'' ''bitcoin'' 7 w_down))
   \<and> list_all asset_ok (fst (fetchAllAssets [''BTC'', ''AAPL''] [''BTC'' \<mapsto> ''bitcoin''] 30 w_down))"
proof -
  have "cache_ok (cache w_down)"
    by (simp add: cache_ok_def asset_ok_def chart_key_def w_down_def cached_aapl_def empty_obj_def)
  then show ?thesis
    using returned_assets_shape [of w_down] by blast
qed

lemma w_down_crypto_placeholder:
  assumes "map_of (cache w_down) (crypto_chartKey symb days) = None"
  shows "fst (fetchCryptoData symb coinId days w_down) = crypto_placeholder symb"
    and "requests (snd (fetchCryptoData symb coinId days w_down))
           = replicate 4 (crypto_chart_request coinId days)"
proof -
  define req where "req = crypto_chart_request coinId days"
  have inv: "\<not> isCacheValid w_down (crypto_chartKey symb days) CACHE_TTL"
    using assms by (simp add: isCacheValid_def cache_get_def)
  have all: "\<forall>k<4. retryable_failure (attempt_outcome w_down req k)"
    by (simp add: attempt_outcome_def retryable_failure_def shouldRetry_def w_down_def)
  obtain r st1 where ax: "axiosGetWithRetry req w_down = (r, st1)"
    by (cases "axiosGetWithRetry req w_down")
  have "requests (snd (axiosGetWithRetry_loop req 3 1000 0 w_down))
          = requests w_down @ replicate (Suc 3) req"
    using all retry_loop_from [of 0 3 3 w_down req 1000] by simp
  then have rq: "requests st1 = replicate 4 req"
    using ax by (simp add: axiosGetWithRetry_def w_down_def numeral_eq_Suc)
  obtain e where "fst (axiosGetWithRetry req w_down) = Inl e"
    using all retries_exhausted by blast
  then have tr: "fetchCryptoData_try symb coinId days (crypto_chartKey symb days)
                   (crypto_detailKey coinId) w_down = (Inl e, st1)"
    using ax by (simp add: fetchCryptoData_try_def req_def)
  have "cache st1 = cache w_down" using fetchCryptoData_try_Inl [OF tr] .
  then show "fst (fetchCryptoData symb coinId days w_down) = crypto_placeholder symb"
    using inv tr assms by (simp add: fetchCryptoData_def Let_def cache_has_def)
  show "requests (snd (fetchCryptoData symb coinId days w_down))
           = replicate 4 (crypto_chart_request coinId days)"
    using inv tr rq by (simp add: fetchCryptoData_def Let_def req_def split: if_splits)
qed

text \<open>
  Claim C1 as stated does not hold, in either direction. A ticker whose entry in the
  id map is the empty string has an entry, yet \<^verbatim>\<open>if (coinId)\<close> is false for it and it
  goes to the equity adapter. A ticker without an entry whose name is that of a member
  every object inherits, such as \<^verbatim>\<open>constructor\<close>, reads that member, which is truthy, and
  goes to the crypto adapter. With every request failing, the first gets the equity
  placeholder and the second the crypto placeholder.
\<close>

theorem fetchAllAssets_dispatch_counterexample:
  "[''BTC'' \<mapsto> []] ''BTC'' = Some []
   \<and> fst (fetchAllAssets [''BTC''] [''BTC'' \<mapsto> []] 7 w_down) = [stock_placeholder ''BTC'']
   \<and> fst (fetchCryptoData ''BTC'' [] 7 w_down) = crypto_placeholder ''BTC''
   \<and> Map.empty ''constructor'' = (None :: string option)
   \<and> fst (fetchAllAssets [''constructor''] Map.empty 7 w_down)
       = [crypto_placeholder ''constructor'']
   \<and> url (hd (requests (snd (fetchAllAssets [''constructor''] Map.empty 7 w_down))))
       = ''https://api.coingecko.com/api/v3/coins/function Object() { [native code] }/market_chart''
   \<and> fst (fetchStockData ''constructor'' 7 w_down) = stock_placeholder ''constructor''
   \<and> (\<forall>s. type' (stock_placeholder s) = Some ''stock'')
   \<and> (\<forall>s. type' (crypto_placeholder s) = Some ''crypto'')"
proof -
  have k: "stock_cacheKey ''BTC'' 7 = ''stock-BTC-7''"
    "stock_cacheKey ''constructor'' 7 = ''stock-constructor-7''"
    "crypto_chartKey ''constructor'' 7 = ''crypto-constructor-7''"
    by (simp_all add: stock_cacheKey_def crypto_chartKey_def show_int_def show_nat.simps)
  have ri: "range_interval 7 = (''7d'', ''1d'')"
    by (simp add: range_interval_def)
  have stock: "fst (fetchStockData symb 7 w_down) = stock_placeholder symb"
    if "map_of (cache w_down) (stock_cacheKey symb 7) = None" for symb
  proof -
    have inv: "\<not> isCacheValid w_down (stock_cacheKey symb 7) CACHE_TTL"
      using that by (simp add: isCacheValid_def cache_get_def)
    have out: "attempt_outcome w_down (stock_chart_request symb (snd (range_interval 7))
           (fst (range_interval 7))) 0 = Inl (AxiosError None)"
      by (simp add: attempt_outcome_def w_down_def)
    show ?thesis
      using fetchStockData_chart_failed(2) [OF inv out] that by simp
  qed
  have s1: "fst (fetchStockData ''BTC'' 7 w_down) = stock_placeholder ''BTC''"
    by (rule stock) (simp add: k w_down_def)
  have s2: "fst (fetchStockData ''constructor'' 7 w_down) = stock_placeholder ''constructor''"
    by (rule stock) (simp add: k w_down_def)
  have c1: "fst (fetchCryptoData ''BTC'' [] 7 w_down) = crypto_placeholder ''BTC''"
    by (rule w_down_crypto_placeholder) (simp add: example_keys w_down_def)
  have c2: "fst (fetchCryptoData ''constructor'' (member_text ''constructor'') 7 w_down)
              = crypto_placeholder ''constructor''"
    by (rule w_down_crypto_placeholder) (simp add: k w_down_def)
  have r2: "requests (snd (fetchCryptoData ''constructor'' (member_text ''constructor'') 7 w_down))
              = replicate 4 (crypto_chart_request (member_text ''constructor'') 7)"
    by (rule w_down_crypto_placeholder) (simp add: k w_down_def)
  have all1: "fst (fetchAllAssets [''BTC''] [''BTC'' \<mapsto> []] 7 w_down) = [stock_placeholder ''BTC'']"
    using s1 by (simp add: fetchAllAssets_def lookup_id_def case_prod_beta)
  have all2: "fst (fetchAllAssets [''constructor''] Map.empty 7 w_down)
                = [crypto_placeholder ''constructor'']"
    using c2
    by (simp add: fetchAllAssets_def lookup_id_def object_prototype_members_def case_prod_beta)
  have url2: "url (hd (requests (snd (fetchAllAssets [''constructor''] Map.empty 7 w_down))))
       = ''https://api.coingecko.com/api/v3/coins/function Object() { [native code] }/market_chart''"
    using r2
    by (simp add: fetchAllAssets_def lookup_id_def object_prototype_members_def case_prod_beta
        numeral_eq_Suc crypto_chart_request_def member_text_def)
  show ?thesis
    using all1 all2 url2 c1 s2 by (simp add: placeholder_fields)
qed

text \<open>
  Claim C1, amended. \<^verbatim>\<open>fetchAllAssets\<close> returns exactly one record per input ticker, in
  input order: the i-th record is the result of the adapter call for the i-th ticker,
  made in the world left by the calls for the tickers before it. For a ticker that has
  an entry in the id map, or whose name is not that of a member every object inherits,
  that call is the crypto adapter with the mapped id when the entry is a non-empty id,
  and the equity adapter otherwise (no entry, or an empty id). The adapters always
  return a record, so no ticker is omitted.
\<close>

theorem fetchAllAssets_dispatch:
  "length (fst (fetchAllAssets tickers cryptoIds days st)) = length tickers
   \<and> (\<forall>i<length tickers.
        fst (fetchAllAssets tickers cryptoIds days st) ! i =
          fst (dispatch cryptoIds (tickers ! i) days
                 (snd (fetchAllAssets (take i tickers) cryptoIds days st))))
   \<and> (\<forall>ticker st'.
        cryptoIds ticker \<noteq> None \<or> ticker \<notin> set object_prototype_members \<longrightarrow>
        dispatch cryptoIds ticker days st' =
          (case cryptoIds ticker of
             None \<Rightarrow> fetchStockData ticker days st'
           | Some coinId \<Rightarrow>
               if coinId = [] then fetchStockData ticker days st'
               else fetchCryptoData ticker coinId days st'))"
  by (auto simp: fetchAllAssets_length fetchAllAssets_nth dispatch_def lookup_id_def Let_def
      split: option.splits)

theorem fetchAllAssets_dispatch_witness:
  "length (fst (fetchAllAssets [''BTC'', ''AAPL''] [''BTC'' \<mapsto> ''bitcoin''] 30 w_down)) = 2
   \<and> fst (fetchAllAssets [''BTC'', ''AAPL''] [''BTC'' \<mapsto> ''bitcoin''] 30 w_down) ! 0
       = fst (fetchCryptoData ''BTC'' ''bitcoin'' 30 w_down)
   \<and> fst (fetchAllAssets [''BTC'', ''AAPL''] [''BTC'' \<mapsto> ''bitcoin''] 30 w_down) ! 1
       = fst (fetchStockData ''AAPL'' 30 (snd (fetchCryptoData ''BTC'' ''bitcoin'' 30 w_down)))"
proof -
  note spec = fetchAllAssets_dispatch [of "[''BTC'', ''AAPL'']" "[''BTC'' \<mapsto> ''bitcoin'']" 30 w_down]
  have own: "[''BTC'' \<mapsto> ''bitcoin''] ''BTC'' \<noteq> None \<or> ''BTC'' \<notin> set object_prototype_members"
    by simp
  have plain: "[''BTC'' \<mapsto> ''bitcoin''] ''AAPL'' \<noteq> None \<or> ''AAPL'' \<notin> set object_prototype_members"
    by (simp add: object_prototype_members_def)
  have d0: "dispatch [''BTC'' \<mapsto> ''bitcoin''] ''BTC'' 30 st' = fetchCryptoData ''BTC'' ''bitcoin'' 30 st'"
    for st'
    using spec [THEN conjunct2, THEN conjunct2, rule_format, OF own, of st'] by simp
  have d1: "dispatch [''BTC'' \<mapsto> ''bitcoin''] ''AAPL'' 30 st' = fetchStockData ''AAPL'' 30 st'"
    for st'
    using spec [THEN conjunct2, THEN conjunct2, rule_format, OF plain, of st'] by simp
  have n0: "fst (fetchAllAssets [''BTC'', ''AAPL''] [''BTC'' \<mapsto> ''bitcoin''] 30 w_down) ! 0
            = fst (fetchCryptoData ''BTC'' ''bitcoin'' 30
                (snd (fetchAllAssets [] [''BTC'' \<mapsto> ''bitcoin''] 30 w_down)))"
    using spec [THEN conjunct2, THEN conjunct1, rule_format, of 0] by (simp add: d0)
  have n1: "fst (fetchAllAssets [''BTC'', ''AAPL''] [''BTC'' \<mapsto> ''bitcoin''] 30 w_down) ! 1
            = fst (fetchStockData ''AAPL'' 30
                (snd (fetchAllAssets [''BTC''] [''BTC'' \<mapsto> ''bitcoin''] 30 w_down)))"
    using spec [THEN conjunct2, THEN conjunct1, rule_format, of 1] by (simp add: d1)
  have zero: "snd (fetchAllAssets [] [''BTC'' \<mapsto> ''bitcoin''] 30 w_down) = w_down"
    by (simp add: fetchAllAssets_def)
  have one: "snd (fetchAllAssets [''BTC''] [''BTC'' \<mapsto> ''bitcoin''] 30 w_down)
             = snd (fetchCryptoData ''BTC'' ''bitcoin'' 30 w_down)"
    using fetchAllAssets_snoc [of "[]" "''BTC''" "[''BTC'' \<mapsto> ''bitcoin'']" 30 w_down]
    by (simp add: zero d0)
  show ?thesis
    using spec [THEN conjunct1] n0 n1 by (simp add: zero one)
qed

end
